theory Spec2Isabelle
  imports Main "HOL-Library.Word"
begin

unbundle bit_operations_syntax

section \<open>Machine types and the store\<close>

text \<open>
  The compressor (icu_cmp.c) works on C integers of fixed width. \<open>unsigned int\<close>,
  \<open>uint32_t\<close> and \<open>int32_t\<close> are 32-bit words, \<open>uint16_t\<close> 16-bit words and
  \<open>uint8_t\<close> 8-bit words; \<open>+\<close>, \<open>-\<close> and \<open>*\<close> on words wrap around, \<open>sint\<close>
  reads a word as a signed value. Return codes of type \<open>int\<close> are small numbers
  (0, -1, -2, minus a count of problems) and are modelled as \<open>int\<close>.

  A pointer is the number of the memory block it points to; \<open>NULL\<close> is block 0. The
  store gives every block a view as an array of each element type the code casts
  \<open>void *\<close> buffers to. Arrays are total functions from the index: C leaves reads past
  the end of a buffer and through \<open>NULL\<close> undefined, the model reads the store there.
\<close>

type_synonym u8 = "8 word"
type_synonym u16 = "16 word"
type_synonym u32 = "32 word"
type_synonym addr = nat

definition NULL :: addr where
  "NULL = 0"

record S_FX =
  EXPOSURE_FLAGS :: u8
  FX :: u32

record S_FX_EFX = S_FX +
  EFX :: u32

record S_FX_NCOB = S_FX +
  NCOB_X :: u32
  NCOB_Y :: u32

record S_FX_EFX_NCOB_ECOB = S_FX_NCOB +
  EFX :: u32
  ECOB_X :: u32
  ECOB_Y :: u32

record heap =
  mem16 :: "addr \<Rightarrow> nat \<Rightarrow> u16"
  mem32 :: "addr \<Rightarrow> nat \<Rightarrow> u32"
  memS_FX :: "addr \<Rightarrow> nat \<Rightarrow> S_FX"
  memS_FX_EFX :: "addr \<Rightarrow> nat \<Rightarrow> S_FX_EFX"
  memS_FX_NCOB :: "addr \<Rightarrow> nat \<Rightarrow> S_FX_NCOB"
  memS_FX_EFX_NCOB_ECOB :: "addr \<Rightarrow> nat \<Rightarrow> S_FX_EFX_NCOB_ECOB"

section \<open>Compression modes\<close>

text \<open>
  The mode constants are the ones the switch statements of icu_cmp.c name; any other
  number a caller may store in \<open>cmp_mode\<close> is \<open>MODE_UNSUPPORTED\<close>.
\<close>

datatype cmp_mode =
    MODE_RAW | MODE_MODEL_ZERO | MODE_DIFF_ZERO | MODE_MODEL_MULTI | MODE_DIFF_MULTI
  | MODE_RAW_S_FX
  | MODE_MODEL_ZERO_S_FX | MODE_DIFF_ZERO_S_FX | MODE_MODEL_MULTI_S_FX | MODE_DIFF_MULTI_S_FX
  | MODE_MODEL_ZERO_S_FX_EFX | MODE_DIFF_ZERO_S_FX_EFX
  | MODE_MODEL_MULTI_S_FX_EFX | MODE_DIFF_MULTI_S_FX_EFX
  | MODE_MODEL_ZERO_S_FX_NCOB | MODE_DIFF_ZERO_S_FX_NCOB
  | MODE_MODEL_MULTI_S_FX_NCOB | MODE_DIFF_MULTI_S_FX_NCOB
  | MODE_MODEL_ZERO_S_FX_EFX_NCOB_ECOB | MODE_DIFF_ZERO_S_FX_EFX_NCOB_ECOB
  | MODE_MODEL_MULTI_S_FX_EFX_NCOB_ECOB | MODE_DIFF_MULTI_S_FX_EFX_NCOB_ECOB
  | MODE_MODEL_ZERO_32 | MODE_DIFF_ZERO_32 | MODE_MODEL_MULTI_32 | MODE_DIFF_MULTI_32
  | MODE_MODEL_ZERO_F_FX | MODE_DIFF_ZERO_F_FX | MODE_MODEL_MULTI_F_FX | MODE_DIFF_MULTI_F_FX
  | MODE_UNSUPPORTED nat

text \<open>
  Modelled from the spec: the mode predicates of cmp_support.c, which is not part of the
  sources at hand. Section 6 of the specification: the prefix \<open>MODEL_\<close> selects model
  pre-processing, \<open>DIFF_\<close> differential pre-processing, \<open>RAW\<close> bypasses both; the suffix
  \<open>ZERO\<close> selects the zero escape mechanism, \<open>MULTI\<close> the multi escape mechanism.
\<close>

definition raw_mode_is_used :: "cmp_mode \<Rightarrow> bool" where
  "raw_mode_is_used m = (case m of MODE_RAW \<Rightarrow> True | MODE_RAW_S_FX \<Rightarrow> True | _ \<Rightarrow> False)"

definition model_mode_is_used :: "cmp_mode \<Rightarrow> bool" where
  "model_mode_is_used m =
     (case m of
        MODE_MODEL_ZERO \<Rightarrow> True | MODE_MODEL_MULTI \<Rightarrow> True
      | MODE_MODEL_ZERO_S_FX \<Rightarrow> True | MODE_MODEL_MULTI_S_FX \<Rightarrow> True
      | MODE_MODEL_ZERO_S_FX_EFX \<Rightarrow> True | MODE_MODEL_MULTI_S_FX_EFX \<Rightarrow> True
      | MODE_MODEL_ZERO_S_FX_NCOB \<Rightarrow> True | MODE_MODEL_MULTI_S_FX_NCOB \<Rightarrow> True
      | MODE_MODEL_ZERO_S_FX_EFX_NCOB_ECOB \<Rightarrow> True
      | MODE_MODEL_MULTI_S_FX_EFX_NCOB_ECOB \<Rightarrow> True
      | MODE_MODEL_ZERO_32 \<Rightarrow> True | MODE_MODEL_MULTI_32 \<Rightarrow> True
      | MODE_MODEL_ZERO_F_FX \<Rightarrow> True | MODE_MODEL_MULTI_F_FX \<Rightarrow> True
      | _ \<Rightarrow> False)"

definition diff_mode_is_used :: "cmp_mode \<Rightarrow> bool" where
  "diff_mode_is_used m =
     (case m of
        MODE_DIFF_ZERO \<Rightarrow> True | MODE_DIFF_MULTI \<Rightarrow> True
      | MODE_DIFF_ZERO_S_FX \<Rightarrow> True | MODE_DIFF_MULTI_S_FX \<Rightarrow> True
      | MODE_DIFF_ZERO_S_FX_EFX \<Rightarrow> True | MODE_DIFF_MULTI_S_FX_EFX \<Rightarrow> True
      | MODE_DIFF_ZERO_S_FX_NCOB \<Rightarrow> True | MODE_DIFF_MULTI_S_FX_NCOB \<Rightarrow> True
      | MODE_DIFF_ZERO_S_FX_EFX_NCOB_ECOB \<Rightarrow> True
      | MODE_DIFF_MULTI_S_FX_EFX_NCOB_ECOB \<Rightarrow> True
      | MODE_DIFF_ZERO_32 \<Rightarrow> True | MODE_DIFF_MULTI_32 \<Rightarrow> True
      | MODE_DIFF_ZERO_F_FX \<Rightarrow> True | MODE_DIFF_MULTI_F_FX \<Rightarrow> True
      | _ \<Rightarrow> False)"

definition zero_escape_mech_is_used :: "cmp_mode \<Rightarrow> bool" where
  "zero_escape_mech_is_used m =
     (case m of
        MODE_MODEL_ZERO \<Rightarrow> True | MODE_DIFF_ZERO \<Rightarrow> True
      | MODE_MODEL_ZERO_S_FX \<Rightarrow> True | MODE_DIFF_ZERO_S_FX \<Rightarrow> True
      | MODE_MODEL_ZERO_S_FX_EFX \<Rightarrow> True | MODE_DIFF_ZERO_S_FX_EFX \<Rightarrow> True
      | MODE_MODEL_ZERO_S_FX_NCOB \<Rightarrow> True | MODE_DIFF_ZERO_S_FX_NCOB \<Rightarrow> True
      | MODE_MODEL_ZERO_S_FX_EFX_NCOB_ECOB \<Rightarrow> True
      | MODE_DIFF_ZERO_S_FX_EFX_NCOB_ECOB \<Rightarrow> True
      | MODE_MODEL_ZERO_32 \<Rightarrow> True | MODE_DIFF_ZERO_32 \<Rightarrow> True
      | MODE_MODEL_ZERO_F_FX \<Rightarrow> True | MODE_DIFF_ZERO_F_FX \<Rightarrow> True
      | _ \<Rightarrow> False)"

definition multi_escape_mech_is_used :: "cmp_mode \<Rightarrow> bool" where
  "multi_escape_mech_is_used m =
     (case m of
        MODE_MODEL_MULTI \<Rightarrow> True | MODE_DIFF_MULTI \<Rightarrow> True
      | MODE_MODEL_MULTI_S_FX \<Rightarrow> True | MODE_DIFF_MULTI_S_FX \<Rightarrow> True
      | MODE_MODEL_MULTI_S_FX_EFX \<Rightarrow> True | MODE_DIFF_MULTI_S_FX_EFX \<Rightarrow> True
      | MODE_MODEL_MULTI_S_FX_NCOB \<Rightarrow> True | MODE_DIFF_MULTI_S_FX_NCOB \<Rightarrow> True
      | MODE_MODEL_MULTI_S_FX_EFX_NCOB_ECOB \<Rightarrow> True
      | MODE_DIFF_MULTI_S_FX_EFX_NCOB_ECOB \<Rightarrow> True
      | MODE_MODEL_MULTI_32 \<Rightarrow> True | MODE_DIFF_MULTI_32 \<Rightarrow> True
      | MODE_MODEL_MULTI_F_FX \<Rightarrow> True | MODE_DIFF_MULTI_F_FX \<Rightarrow> True
      | _ \<Rightarrow> False)"

section \<open>Configuration, result record and the missing header\<close>

text \<open>
  \<open>struct cmp_cfg\<close> and \<open>struct cmp_info\<close>, with the fields icu_cmp.c reads and writes.
  The field \<open>round\<close> is named \<open>round_par\<close> here. A configuration is passed by value,
  so the \<open>!cfg\<close> guards of the C functions have no counterpart; the result record may be
  absent (\<open>None\<close> is the \<open>NULL\<close> pointer). The error word \<open>cmp_err\<close> is the set of its
  error bits.
\<close>

datatype cmp_err_bit =
    CMP_MODE_ERR_BIT | MODEL_VALUE_ERR_BIT | CMP_PAR_ERR_BIT
  | AP1_CMP_PAR_ERR_BIT | AP2_CMP_PAR_ERR_BIT | SMALL_BUFFER_ERR_BIT

record cmp_cfg =
  cmp_mode :: cmp_mode
  golomb_par :: u32
  spill :: u32
  model_value :: u32
  round_par :: u32
  ap1_golomb_par :: u32
  ap1_spill :: u32
  ap2_golomb_par :: u32
  ap2_spill :: u32
  input_buf :: addr
  model_buf :: addr
  icu_new_model_buf :: addr
  icu_output_buf :: addr
  samples :: u32
  buffer_length :: u32
  rdcu_new_model_adr :: u32
  rdcu_buffer_adr :: u32

record cmp_info =
  cmp_err :: "cmp_err_bit set"
  cmp_mode_used :: u8
  model_value_used :: u8
  round_used :: u8
  spill_used :: u32
  golomb_par_used :: u32
  samples_used :: u32
  cmp_size :: u32
  ap1_cmp_size :: u32
  ap2_cmp_size :: u32
  rdcu_new_model_adr_used :: u32
  rdcu_cmp_adr_used :: u32

text \<open>
  icu_cmp.c includes cmp_support.h, cmp_data_types.h and byteorder.h, none of which is
  among the sources at hand, and is compiled under two switches. What the
  specification does not fix about them is a parameter of the model: the numeric value
  of each mode constant, the bounds of the Golomb parameter and of the spillover
  threshold, \<open>get_max_spill\<close>, the Golomb parameter of the exposure flags, the integer
  logarithm \<open>ilog_2\<close>, \<open>is_a_pow_of_2\<close>, the model update \<open>cal_up_model\<close>, the size of a
  sample, the rounding, subtraction and model update of the structured samples, the
  byte copy of the raw modes, and the two compile-time switches (byte order of the
  host, \<open>ADAPTIVE_CHECK_ENA\<close>). The rounding helpers of the structured samples take and
  return an array, as their C counterparts do, and return an error code with it.
\<close>

record cmp_support =
  mode_code :: "cmp_mode \<Rightarrow> nat"
  MAX_ICU_GOLOMB_PAR :: u32
  MIN_ICU_SPILL :: u32
  get_max_spill :: "u32 \<Rightarrow> cmp_mode \<Rightarrow> u32"
  GOLOMB_PAR_EXPOSURE_FLAGS :: u32
  ilog_2 :: "u32 \<Rightarrow> u32"
  is_a_pow_of_2 :: "u32 \<Rightarrow> bool"
  cal_up_model :: "u32 \<Rightarrow> u32 \<Rightarrow> u32 \<Rightarrow> u32"
  size_of_a_sample :: "cmp_mode \<Rightarrow> nat"
  lossy_rounding_S_FX :: "(nat \<Rightarrow> S_FX) \<Rightarrow> u32 \<Rightarrow> u32 \<Rightarrow> int \<times> (nat \<Rightarrow> S_FX)"
  de_lossy_rounding_S_FX :: "(nat \<Rightarrow> S_FX) \<Rightarrow> u32 \<Rightarrow> u32 \<Rightarrow> int \<times> (nat \<Rightarrow> S_FX)"
  sub_S_FX :: "S_FX \<Rightarrow> S_FX \<Rightarrow> S_FX"
  cal_up_model_S_FX :: "S_FX \<Rightarrow> S_FX \<Rightarrow> u32 \<Rightarrow> S_FX"
  lossy_rounding_S_FX_EFX ::
    "(nat \<Rightarrow> S_FX_EFX) \<Rightarrow> u32 \<Rightarrow> u32 \<Rightarrow> int \<times> (nat \<Rightarrow> S_FX_EFX)"
  sub_S_FX_EFX :: "S_FX_EFX \<Rightarrow> S_FX_EFX \<Rightarrow> S_FX_EFX"
  lossy_rounding_S_FX_NCOB ::
    "(nat \<Rightarrow> S_FX_NCOB) \<Rightarrow> u32 \<Rightarrow> u32 \<Rightarrow> int \<times> (nat \<Rightarrow> S_FX_NCOB)"
  sub_S_FX_NCOB :: "S_FX_NCOB \<Rightarrow> S_FX_NCOB \<Rightarrow> S_FX_NCOB"
  lossy_rounding_S_FX_EFX_NCOB_ECOB ::
    "(nat \<Rightarrow> S_FX_EFX_NCOB_ECOB) \<Rightarrow> u32 \<Rightarrow> u32 \<Rightarrow> int \<times> (nat \<Rightarrow> S_FX_EFX_NCOB_ECOB)"
  sub_S_FX_EFX_NCOB_ECOB :: "S_FX_EFX_NCOB_ECOB \<Rightarrow> S_FX_EFX_NCOB_ECOB \<Rightarrow> S_FX_EFX_NCOB_ECOB"
  raw_copy :: "cmp_mode \<Rightarrow> heap \<Rightarrow> addr \<Rightarrow> addr \<Rightarrow> nat \<Rightarrow> heap"
  little_endian :: bool
  ADAPTIVE_CHECK_ENA :: bool

text \<open>
  Modelled from the spec: the constants \<open>MIN_ICU_GOLOMB_PAR\<close>, \<open>MAX_MODEL_VALUE\<close> and
  \<open>MAX_ICU_ROUND\<close> of cmp_support.h (section 3: the divisor is at least 1, the model
  value at most 16, the round parameter at most 3), and \<open>UINT8_MAX\<close>.
\<close>

definition MIN_ICU_GOLOMB_PAR :: u32 where
  "MIN_ICU_GOLOMB_PAR = 1"

definition MAX_MODEL_VALUE :: u32 where
  "MAX_MODEL_VALUE = 16"

definition MAX_ICU_ROUND :: u32 where
  "MAX_ICU_ROUND = 3"

definition UINT8_MAX :: nat where
  "UINT8_MAX = 255"

text \<open>
  Modelled from the spec: the rounding macros \<open>round_fwd\<close> and \<open>round_inv\<close> and the
  array helpers \<open>lossy_rounding_16\<close> and \<open>lossy_rounding_32\<close> of cmp_support, which are
  not among the sources (section 4.2: \<open>round_fwd(v, k) = v >> k\<close>,
  \<open>round_inv(v, k) = v << k\<close>, applied per field prior to differencing). The shifts are
  those of a 32-bit \<open>unsigned int\<close>, to which C promotes a 16-bit operand; C leaves a
  shift by 32 or more undefined, the model yields 0 there.
\<close>

definition round_fwd :: "u32 \<Rightarrow> u32 \<Rightarrow> u32" where
  "round_fwd v k = drop_bit (unat k) v"

definition round_inv :: "u32 \<Rightarrow> u32 \<Rightarrow> u32" where
  "round_inv v k = push_bit (unat k) v"

definition lossy_rounding_16 :: "(nat \<Rightarrow> u16) \<Rightarrow> u32 \<Rightarrow> u32 \<Rightarrow> (nat \<Rightarrow> u16)" where
  "lossy_rounding_16 data_buf n k =
     (\<lambda>i. if i < unat n then ucast (round_fwd (ucast (data_buf i)) k) else data_buf i)"

definition lossy_rounding_32 :: "(nat \<Rightarrow> u32) \<Rightarrow> u32 \<Rightarrow> u32 \<Rightarrow> (nat \<Rightarrow> u32)" where
  "lossy_rounding_32 data_buf n k =
     (\<lambda>i. if i < unat n then round_fwd (data_buf i) k else data_buf i)"

section \<open>Validator and result initialisation\<close>

definition b2i :: "bool \<Rightarrow> int" where
  "b2i b = (if b then 1 else 0)"

definition set_err :: "cmp_err_bit \<Rightarrow> cmp_info option \<Rightarrow> cmp_info option" where
  "set_err b info = map_option (\<lambda>i. i\<lparr>cmp_err := insert b (cmp_err i)\<rparr>) info"

text \<open>
  \<open>icu_cmp_cfg_valid\<close>: counts the problems of a configuration and returns minus the
  count. The warnings only print and are left out. The raw modes return before the
  parameter checks.
\<close>

definition icu_cmp_cfg_valid ::
  "cmp_support \<Rightarrow> cmp_cfg \<Rightarrow> cmp_info option \<Rightarrow> int \<times> cmp_info option" where
  "icu_cmp_cfg_valid env cfg info =
     (let m = cmp_mode cfg;
          info = map_option (\<lambda>i. i\<lparr>cmp_err := {}\<rparr>) info;
          cfg_invalid =
              b2i (input_buf cfg = NULL)
            + b2i (icu_output_buf cfg = NULL)
            + b2i (buffer_length cfg = 0 \<and> samples cfg \<noteq> 0)
            + b2i (icu_output_buf cfg = input_buf cfg);
          cfg_invalid =
            (if model_mode_is_used m
             then cfg_invalid
                + b2i (model_buf cfg = NULL)
                + b2i (model_buf cfg = input_buf cfg)
                + b2i (model_buf cfg = icu_output_buf cfg)
                + b2i (icu_new_model_buf cfg = input_buf cfg)
                + b2i (icu_new_model_buf cfg = icu_output_buf cfg)
             else cfg_invalid);
          cfg_invalid =
            (if raw_mode_is_used m
             then cfg_invalid + b2i (samples cfg > buffer_length cfg)
             else cfg_invalid);
          unsupported = (\<not> (diff_mode_is_used m \<or> model_mode_is_used m \<or> raw_mode_is_used m));
          info = (if unsupported then set_err CMP_MODE_ERR_BIT info else info);
          cfg_invalid = cfg_invalid + b2i unsupported
      in if raw_mode_is_used m then (- cfg_invalid, info)
         else
           let bad_model = (model_mode_is_used m \<and> model_value cfg > MAX_MODEL_VALUE);
               info = (if bad_model then set_err MODEL_VALUE_ERR_BIT info else info);
               cfg_invalid = cfg_invalid + b2i bad_model;
               bad_par = (golomb_par cfg < MIN_ICU_GOLOMB_PAR \<or>
                          golomb_par cfg > MAX_ICU_GOLOMB_PAR env);
               info = (if bad_par then set_err CMP_PAR_ERR_BIT info else info);
               cfg_invalid = cfg_invalid + b2i bad_par;
               small_spill = (spill cfg < MIN_ICU_SPILL env);
               info = (if small_spill then set_err CMP_PAR_ERR_BIT info else info);
               cfg_invalid = cfg_invalid + b2i small_spill;
               large_spill = (spill cfg > get_max_spill env (golomb_par cfg) m);
               info = (if large_spill then set_err CMP_PAR_ERR_BIT info else info);
               cfg_invalid = cfg_invalid + b2i large_spill;
               bad_ap1 = (ADAPTIVE_CHECK_ENA env \<and>
                          ap1_spill cfg > get_max_spill env (ap1_golomb_par cfg) m);
               info = (if bad_ap1 then set_err AP1_CMP_PAR_ERR_BIT info else info);
               cfg_invalid = cfg_invalid + b2i bad_ap1;
               bad_ap2 = (ADAPTIVE_CHECK_ENA env \<and>
                          ap2_spill cfg > get_max_spill env (ap2_golomb_par cfg) m);
               info = (if bad_ap2 then set_err AP2_CMP_PAR_ERR_BIT info else info);
               cfg_invalid = cfg_invalid + b2i bad_ap2;
               cfg_invalid = cfg_invalid + b2i (round_par cfg > MAX_ICU_ROUND)
           in (- cfg_invalid, info))"

text \<open>
  \<open>set_info\<close>: refuses a mode, round parameter or model value that does not fit the
  8-bit fields of the result record, then mirrors the configuration into it.
\<close>

definition set_info ::
  "cmp_support \<Rightarrow> cmp_cfg \<Rightarrow> cmp_info option \<Rightarrow> int \<times> cmp_info option" where
  "set_info env cfg info =
     (if mode_code env (cmp_mode cfg) > UINT8_MAX then (- 1, info)
      else if unat (round_par cfg) > UINT8_MAX then (- 1, info)
      else if unat (model_value cfg) > UINT8_MAX then (- 1, info)
      else (0, map_option (\<lambda>i. i\<lparr>
              cmp_err := {},
              cmp_mode_used := of_nat (mode_code env (cmp_mode cfg)),
              model_value_used := ucast (model_value cfg),
              round_used := ucast (round_par cfg),
              spill_used := spill cfg,
              golomb_par_used := golomb_par cfg,
              samples_used := samples cfg,
              cmp_size := 0,
              ap1_cmp_size := 0,
              ap2_cmp_size := 0,
              rdcu_new_model_adr_used := rdcu_new_model_adr cfg,
              rdcu_cmp_adr_used := rdcu_buffer_adr cfg\<rparr>) info))"

section \<open>Pre-processing\<close>

text \<open>
  The differencing loops run from the last sample down to the second one:
  \<^verbatim>\<open>for (i = samples - 1; i > 0; i--) data_buf[i] = data_buf[i] - data_buf[i-1];\<close>
  The six loops of icu_cmp.c differ in the subtraction only, which is an argument here.
\<close>

fun diff_loop :: "('a \<Rightarrow> 'a \<Rightarrow> 'a) \<Rightarrow> nat \<Rightarrow> (nat \<Rightarrow> 'a) \<Rightarrow> (nat \<Rightarrow> 'a)" where
  "diff_loop sub 0 data_buf = data_buf"
| "diff_loop sub (Suc i) data_buf =
     diff_loop sub i (data_buf(Suc i := sub (data_buf (Suc i)) (data_buf i)))"

definition diff_16 :: "heap \<Rightarrow> addr \<Rightarrow> u32 \<Rightarrow> u32 \<Rightarrow> int \<times> heap" where
  "diff_16 h data_buf n k =
     (if n = 0 then (0, h)
      else if data_buf = NULL then (- 1, h)
      else
        let d = lossy_rounding_16 (mem16 h data_buf) n k;
            d = diff_loop (\<lambda>a b. a - b) (unat n - 1) d
        in (0, h\<lparr>mem16 := (mem16 h)(data_buf := d)\<rparr>))"

definition diff_32 :: "heap \<Rightarrow> addr \<Rightarrow> u32 \<Rightarrow> u32 \<Rightarrow> int \<times> heap" where
  "diff_32 h data_buf n k =
     (if n = 0 then (0, h)
      else if data_buf = NULL then (- 1, h)
      else
        let d = lossy_rounding_32 (mem32 h data_buf) n k;
            d = diff_loop (\<lambda>a b. a - b) (unat n - 1) d
        in (0, h\<lparr>mem32 := (mem32 h)(data_buf := d)\<rparr>))"

definition diff_S_FX :: "cmp_support \<Rightarrow> heap \<Rightarrow> addr \<Rightarrow> u32 \<Rightarrow> u32 \<Rightarrow> int \<times> heap" where
  "diff_S_FX env h data n k =
     (if n = 0 then (0, h)
      else if data = NULL then (- 1, h)
      else
        let (err, d) = lossy_rounding_S_FX env (memS_FX h data) n k;
            h1 = h\<lparr>memS_FX := (memS_FX h)(data := d)\<rparr>
        in if err \<noteq> 0 then (err, h1)
           else (0, h\<lparr>memS_FX := (memS_FX h)(data := diff_loop (sub_S_FX env) (unat n - 1) d)\<rparr>))"

definition diff_S_FX_EFX :: "cmp_support \<Rightarrow> heap \<Rightarrow> addr \<Rightarrow> u32 \<Rightarrow> u32 \<Rightarrow> int \<times> heap" where
  "diff_S_FX_EFX env h data n k =
     (if n = 0 then (0, h)
      else if data = NULL then (- 1, h)
      else
        let (err, d) = lossy_rounding_S_FX_EFX env (memS_FX_EFX h data) n k;
            h1 = h\<lparr>memS_FX_EFX := (memS_FX_EFX h)(data := d)\<rparr>
        in if err \<noteq> 0 then (err, h1)
           else (0, h\<lparr>memS_FX_EFX :=
                  (memS_FX_EFX h)(data := diff_loop (sub_S_FX_EFX env) (unat n - 1) d)\<rparr>))"

definition diff_S_FX_NCOB :: "cmp_support \<Rightarrow> heap \<Rightarrow> addr \<Rightarrow> u32 \<Rightarrow> u32 \<Rightarrow> int \<times> heap" where
  "diff_S_FX_NCOB env h data n k =
     (if n = 0 then (0, h)
      else if data = NULL then (- 1, h)
      else
        let (err, d) = lossy_rounding_S_FX_NCOB env (memS_FX_NCOB h data) n k;
            h1 = h\<lparr>memS_FX_NCOB := (memS_FX_NCOB h)(data := d)\<rparr>
        in if err \<noteq> 0 then (err, h1)
           else (0, h\<lparr>memS_FX_NCOB :=
                  (memS_FX_NCOB h)(data := diff_loop (sub_S_FX_NCOB env) (unat n - 1) d)\<rparr>))"

definition diff_S_FX_EFX_NCOB_ECOB ::
  "cmp_support \<Rightarrow> heap \<Rightarrow> addr \<Rightarrow> u32 \<Rightarrow> u32 \<Rightarrow> int \<times> heap" where
  "diff_S_FX_EFX_NCOB_ECOB env h data n k =
     (if n = 0 then (0, h)
      else if data = NULL then (- 1, h)
      else
        let (err, d) = lossy_rounding_S_FX_EFX_NCOB_ECOB env (memS_FX_EFX_NCOB_ECOB h data) n k;
            h1 = h\<lparr>memS_FX_EFX_NCOB_ECOB := (memS_FX_EFX_NCOB_ECOB h)(data := d)\<rparr>
        in if err \<noteq> 0 then (err, h1)
           else (0, h\<lparr>memS_FX_EFX_NCOB_ECOB :=
                  (memS_FX_EFX_NCOB_ECOB h)
                    (data := diff_loop (sub_S_FX_EFX_NCOB_ECOB env) (unat n - 1) d)\<rparr>))"

text \<open>
  The model loops run from the first sample up. One step of \<open>model_16\<close> reads the
  sample and the model, stores the residual in the data buffer and then the updated
  model in the updated-model buffer; the store is threaded through the two writes, so that
  buffers that share a block see each other's writes as they do in C.
\<close>

definition wr16 :: "heap \<Rightarrow> addr \<Rightarrow> nat \<Rightarrow> u16 \<Rightarrow> heap" where
  "wr16 h a i v = h\<lparr>mem16 := (mem16 h)(a := (mem16 h a)(i := v))\<rparr>"

definition wr32 :: "heap \<Rightarrow> addr \<Rightarrow> nat \<Rightarrow> u32 \<Rightarrow> heap" where
  "wr32 h a i v = h\<lparr>mem32 := (mem32 h)(a := (mem32 h a)(i := v))\<rparr>"

definition wrS_FX :: "heap \<Rightarrow> addr \<Rightarrow> nat \<Rightarrow> S_FX \<Rightarrow> heap" where
  "wrS_FX h a i v = h\<lparr>memS_FX := (memS_FX h)(a := (memS_FX h a)(i := v))\<rparr>"

definition model_16_step ::
  "cmp_support \<Rightarrow> addr \<Rightarrow> addr \<Rightarrow> addr \<Rightarrow> u32 \<Rightarrow> u32 \<Rightarrow> nat \<Rightarrow> heap \<Rightarrow> heap" where
  "model_16_step env data_buf mbuf up_mbuf mv k i h =
     (let round_input = (ucast (round_fwd (ucast (mem16 h data_buf i)) k) :: u16);
          round_model = (ucast (round_fwd (ucast (mem16 h mbuf i)) k) :: u16);
          h1 = wr16 h data_buf i (round_input - round_model)
      in wr16 h1 up_mbuf i
           (ucast (cal_up_model env (round_inv (ucast round_input) k)
                     (ucast (mem16 h1 mbuf i)) mv)))"

fun model_16_loop ::
  "cmp_support \<Rightarrow> addr \<Rightarrow> addr \<Rightarrow> addr \<Rightarrow> u32 \<Rightarrow> u32 \<Rightarrow> nat \<Rightarrow> nat \<Rightarrow> heap \<Rightarrow> heap" where
  "model_16_loop env d m u mv k 0 i h = h"
| "model_16_loop env d m u mv k (Suc n) i h =
     model_16_loop env d m u mv k n (Suc i) (model_16_step env d m u mv k i h)"

definition model_16 ::
  "cmp_support \<Rightarrow> heap \<Rightarrow> addr \<Rightarrow> addr \<Rightarrow> addr \<Rightarrow> u32 \<Rightarrow> u32 \<Rightarrow> u32 \<Rightarrow> int \<times> heap" where
  "model_16 env h data_buf mbuf up_mbuf n mv k =
     (if n = 0 then (0, h)
      else if data_buf = NULL then (- 1, h)
      else if mbuf = NULL then (- 1, h)
      else if mv > MAX_MODEL_VALUE then (- 1, h)
      else
        let up_mbuf = (if up_mbuf = NULL then mbuf else up_mbuf)
        in (0, model_16_loop env data_buf mbuf up_mbuf mv k (unat n) 0 h))"

definition model_32_step ::
  "cmp_support \<Rightarrow> addr \<Rightarrow> addr \<Rightarrow> u32 \<Rightarrow> u32 \<Rightarrow> nat \<Rightarrow> heap \<Rightarrow> heap" where
  "model_32_step env data_buf mbuf mv k i h =
     (let round_input = round_fwd (mem32 h data_buf i) k;
          round_model = round_fwd (mem32 h mbuf i) k;
          h1 = wr32 h data_buf i (round_input - round_model)
      in wr32 h1 mbuf i
           (cal_up_model env (round_inv round_input k) (mem32 h1 mbuf i) mv))"

fun model_32_loop ::
  "cmp_support \<Rightarrow> addr \<Rightarrow> addr \<Rightarrow> u32 \<Rightarrow> u32 \<Rightarrow> nat \<Rightarrow> nat \<Rightarrow> heap \<Rightarrow> heap" where
  "model_32_loop env d m mv k 0 i h = h"
| "model_32_loop env d m mv k (Suc n) i h =
     model_32_loop env d m mv k n (Suc i) (model_32_step env d m mv k i h)"

definition model_32 ::
  "cmp_support \<Rightarrow> heap \<Rightarrow> addr \<Rightarrow> addr \<Rightarrow> u32 \<Rightarrow> u32 \<Rightarrow> u32 \<Rightarrow> int \<times> heap" where
  "model_32 env h data_buf mbuf n mv k =
     (if n = 0 then (0, h)
      else if data_buf = NULL then (- 1, h)
      else if mbuf = NULL then (- 1, h)
      else if mv > MAX_MODEL_VALUE then (- 1, h)
      else (0, model_32_loop env data_buf mbuf mv k (unat n) 0 h))"

text \<open>
  \<open>model_S_FX\<close> rounds copies of the sample and of the model (one-element arrays for
  the rounding helpers) and leaves the loop at the first error a helper reports.
\<close>

definition model_S_FX_step ::
  "cmp_support \<Rightarrow> addr \<Rightarrow> addr \<Rightarrow> addr \<Rightarrow> u32 \<Rightarrow> u32 \<Rightarrow> nat \<Rightarrow> heap \<Rightarrow> int \<times> heap" where
  "model_S_FX_step env dbuf mbuf up_mbuf mv k i h =
     (let (err, a) = lossy_rounding_S_FX env (\<lambda>_. memS_FX h dbuf i) 1 k
      in if err \<noteq> 0 then (err, h)
         else
           let round_data = a 0;
               (err, b) = lossy_rounding_S_FX env (\<lambda>_. memS_FX h mbuf i) 1 k
           in if err \<noteq> 0 then (err, h)
              else
                let round_model = b 0;
                    h1 = wrS_FX h dbuf i (sub_S_FX env round_data round_model);
                    (err, c) = de_lossy_rounding_S_FX env (\<lambda>_. round_data) 1 k
                in if err \<noteq> 0 then (err, h1)
                   else (0, wrS_FX h1 up_mbuf i
                              (cal_up_model_S_FX env (c 0) (memS_FX h1 mbuf i) mv)))"

fun model_S_FX_loop ::
  "cmp_support \<Rightarrow> addr \<Rightarrow> addr \<Rightarrow> addr \<Rightarrow> u32 \<Rightarrow> u32 \<Rightarrow> nat \<Rightarrow> nat \<Rightarrow> heap \<Rightarrow> int \<times> heap" where
  "model_S_FX_loop env d m u mv k 0 i h = (0, h)"
| "model_S_FX_loop env d m u mv k (Suc n) i h =
     (let (err, h1) = model_S_FX_step env d m u mv k i h
      in if err \<noteq> 0 then (err, h1) else model_S_FX_loop env d m u mv k n (Suc i) h1)"

definition model_S_FX ::
  "cmp_support \<Rightarrow> heap \<Rightarrow> addr \<Rightarrow> addr \<Rightarrow> addr \<Rightarrow> u32 \<Rightarrow> u32 \<Rightarrow> u32 \<Rightarrow> int \<times> heap" where
  "model_S_FX env h dbuf mbuf up_mbuf n mv k =
     (if n = 0 then (0, h)
      else if dbuf = NULL then (- 1, h)
      else if mbuf = NULL then (- 1, h)
      else if mv > MAX_MODEL_VALUE then (- 1, h)
      else
        let up_mbuf = (if up_mbuf = NULL then mbuf else up_mbuf)
        in model_S_FX_loop env dbuf mbuf up_mbuf mv k (unat n) 0 h)"

text \<open>
  \<open>pre_process\<close>: the dispatcher of the pre-processing stage. The model modes of the
  shapes S_FX_EFX, S_FX_NCOB and S_FX_EFX_NCOB_ECOB have no case in its switch and end
  in the default branch.
\<close>

definition pre_process :: "cmp_support \<Rightarrow> cmp_cfg \<Rightarrow> heap \<Rightarrow> int \<times> heap" where
  "pre_process env cfg h =
     (if samples cfg = 0 then (0, h)
      else if input_buf cfg = NULL then (- 1, h)
      else
        case cmp_mode cfg of
          MODE_RAW \<Rightarrow> (0, h)
        | MODE_RAW_S_FX \<Rightarrow> (0, h)
        | MODE_MODEL_ZERO \<Rightarrow>
            model_16 env h (input_buf cfg) (model_buf cfg) (icu_new_model_buf cfg)
              (samples cfg) (model_value cfg) (round_par cfg)
        | MODE_MODEL_MULTI \<Rightarrow>
            model_16 env h (input_buf cfg) (model_buf cfg) (icu_new_model_buf cfg)
              (samples cfg) (model_value cfg) (round_par cfg)
        | MODE_DIFF_ZERO \<Rightarrow> diff_16 h (input_buf cfg) (samples cfg) (round_par cfg)
        | MODE_DIFF_MULTI \<Rightarrow> diff_16 h (input_buf cfg) (samples cfg) (round_par cfg)
        | MODE_MODEL_ZERO_S_FX \<Rightarrow>
            model_S_FX env h (input_buf cfg) (model_buf cfg) (icu_new_model_buf cfg)
              (samples cfg) (model_value cfg) (round_par cfg)
        | MODE_MODEL_MULTI_S_FX \<Rightarrow>
            model_S_FX env h (input_buf cfg) (model_buf cfg) (icu_new_model_buf cfg)
              (samples cfg) (model_value cfg) (round_par cfg)
        | MODE_DIFF_ZERO_S_FX \<Rightarrow> diff_S_FX env h (input_buf cfg) (samples cfg) (round_par cfg)
        | MODE_DIFF_MULTI_S_FX \<Rightarrow> diff_S_FX env h (input_buf cfg) (samples cfg) (round_par cfg)
        | MODE_DIFF_ZERO_S_FX_EFX \<Rightarrow>
            diff_S_FX_EFX env h (input_buf cfg) (samples cfg) (round_par cfg)
        | MODE_DIFF_MULTI_S_FX_EFX \<Rightarrow>
            diff_S_FX_EFX env h (input_buf cfg) (samples cfg) (round_par cfg)
        | MODE_DIFF_ZERO_S_FX_NCOB \<Rightarrow>
            diff_S_FX_NCOB env h (input_buf cfg) (samples cfg) (round_par cfg)
        | MODE_DIFF_MULTI_S_FX_NCOB \<Rightarrow>
            diff_S_FX_NCOB env h (input_buf cfg) (samples cfg) (round_par cfg)
        | MODE_DIFF_ZERO_S_FX_EFX_NCOB_ECOB \<Rightarrow>
            diff_S_FX_EFX_NCOB_ECOB env h (input_buf cfg) (samples cfg) (round_par cfg)
        | MODE_DIFF_MULTI_S_FX_EFX_NCOB_ECOB \<Rightarrow>
            diff_S_FX_EFX_NCOB_ECOB env h (input_buf cfg) (samples cfg) (round_par cfg)
        | MODE_MODEL_ZERO_32 \<Rightarrow>
            model_32 env h (input_buf cfg) (model_buf cfg)
              (samples cfg) (model_value cfg) (round_par cfg)
        | MODE_MODEL_MULTI_32 \<Rightarrow>
            model_32 env h (input_buf cfg) (model_buf cfg)
              (samples cfg) (model_value cfg) (round_par cfg)
        | MODE_MODEL_ZERO_F_FX \<Rightarrow>
            model_32 env h (input_buf cfg) (model_buf cfg)
              (samples cfg) (model_value cfg) (round_par cfg)
        | MODE_MODEL_MULTI_F_FX \<Rightarrow>
            model_32 env h (input_buf cfg) (model_buf cfg)
              (samples cfg) (model_value cfg) (round_par cfg)
        | MODE_DIFF_ZERO_32 \<Rightarrow> diff_32 h (input_buf cfg) (samples cfg) (round_par cfg)
        | MODE_DIFF_MULTI_32 \<Rightarrow> diff_32 h (input_buf cfg) (samples cfg) (round_par cfg)
        | MODE_DIFF_ZERO_F_FX \<Rightarrow> diff_32 h (input_buf cfg) (samples cfg) (round_par cfg)
        | MODE_DIFF_MULTI_F_FX \<Rightarrow> diff_32 h (input_buf cfg) (samples cfg) (round_par cfg)
        | _ \<Rightarrow> (- 1, h))"

section \<open>Mapping to non-negative values\<close>

text \<open>
  The argument of \<open>map_to_pos_alg_8\<close> is an \<open>int8_t\<close>, read with \<open>sint\<close>. C computes
  \<open>(-value_to_map) * 2 - 1\<close> and \<open>value_to_map * 2\<close> in \<open>int\<close> and the cast to
  \<open>uint8_t\<close> keeps the low 8 bits, which is \<open>word_of_int\<close>; the same for 16 bits. For
  32 bits the \<open>int\<close> arithmetic itself overflows; the source marks the overflow as
  intended, and the model takes the two's complement result, again \<open>word_of_int\<close> of
  the exact value.
\<close>

definition map_to_pos_alg_8 :: "u8 \<Rightarrow> u8" where
  "map_to_pos_alg_8 value_to_map =
     (if sint value_to_map < 0
      then word_of_int ((- sint value_to_map) * 2 - 1)
      else word_of_int (sint value_to_map * 2))"

definition map_to_pos_alg_16 :: "u16 \<Rightarrow> u16" where
  "map_to_pos_alg_16 value_to_map =
     (if sint value_to_map < 0
      then word_of_int ((- sint value_to_map) * 2 - 1)
      else word_of_int (sint value_to_map * 2))"

definition map_to_pos_alg_32 :: "u32 \<Rightarrow> u32" where
  "map_to_pos_alg_32 value_to_map =
     (if sint value_to_map < 0
      then word_of_int ((- sint value_to_map) * 2 - 1)
      else word_of_int (sint value_to_map * 2))"

text \<open>
  The mapping loops replace every sample by its image, from the first sample up:
  \<^verbatim>\<open>for (i = 0; i < samples; i++) { data_buf[i] = ...; if (zero_mode_used) ... += 1; }\<close>
  The exposure flags are mapped but never incremented.
\<close>

fun for_each :: "('a \<Rightarrow> 'a) \<Rightarrow> nat \<Rightarrow> nat \<Rightarrow> (nat \<Rightarrow> 'a) \<Rightarrow> (nat \<Rightarrow> 'a)" where
  "for_each f 0 i data_buf = data_buf"
| "for_each f (Suc n) i data_buf = for_each f n (Suc i) (data_buf(i := f (data_buf i)))"

definition bias :: "bool \<Rightarrow> 'a::len word \<Rightarrow> 'a word" where
  "bias zero_mode_used v = (if zero_mode_used then v + 1 else v)"

definition map_to_pos_16 :: "heap \<Rightarrow> addr \<Rightarrow> u32 \<Rightarrow> bool \<Rightarrow> int \<times> heap" where
  "map_to_pos_16 h data_buf n zero_mode_used =
     (if n = 0 then (0, h)
      else if data_buf = NULL then (- 1, h)
      else (0, h\<lparr>mem16 := (mem16 h)(data_buf :=
                  for_each (\<lambda>v. bias zero_mode_used (map_to_pos_alg_16 v))
                    (unat n) 0 (mem16 h data_buf))\<rparr>))"

definition map_to_pos_32 :: "heap \<Rightarrow> addr \<Rightarrow> u32 \<Rightarrow> bool \<Rightarrow> int \<times> heap" where
  "map_to_pos_32 h data_buf n zero_mode_used =
     (if n = 0 then (0, h)
      else if data_buf = NULL then (- 1, h)
      else (0, h\<lparr>mem32 := (mem32 h)(data_buf :=
                  for_each (\<lambda>v. bias zero_mode_used (map_to_pos_alg_32 v))
                    (unat n) 0 (mem32 h data_buf))\<rparr>))"

definition map_to_pos_S_FX :: "heap \<Rightarrow> addr \<Rightarrow> u32 \<Rightarrow> bool \<Rightarrow> int \<times> heap" where
  "map_to_pos_S_FX h data_buf n zero_mode_used =
     (if n = 0 then (0, h)
      else if data_buf = NULL then (- 1, h)
      else (0, h\<lparr>memS_FX := (memS_FX h)(data_buf :=
                  for_each
                    (\<lambda>s. s\<lparr>EXPOSURE_FLAGS := map_to_pos_alg_8 (EXPOSURE_FLAGS s),
                             FX := bias zero_mode_used (map_to_pos_alg_32 (FX s))\<rparr>)
                    (unat n) 0 (memS_FX h data_buf))\<rparr>))"

definition map_to_pos_S_FX_EFX :: "heap \<Rightarrow> addr \<Rightarrow> u32 \<Rightarrow> bool \<Rightarrow> int \<times> heap" where
  "map_to_pos_S_FX_EFX h data_buf n zero_mode_used =
     (if n = 0 then (0, h)
      else if data_buf = NULL then (- 1, h)
      else (0, h\<lparr>memS_FX_EFX := (memS_FX_EFX h)(data_buf :=
                  for_each
                    (\<lambda>s. s\<lparr>EXPOSURE_FLAGS := map_to_pos_alg_8 (EXPOSURE_FLAGS s),
                             FX := bias zero_mode_used (map_to_pos_alg_32 (FX s)),
                             S_FX_EFX.EFX :=
                               bias zero_mode_used (map_to_pos_alg_32 (S_FX_EFX.EFX s))\<rparr>)
                    (unat n) 0 (memS_FX_EFX h data_buf))\<rparr>))"

definition map_to_pos_S_FX_NCOB :: "heap \<Rightarrow> addr \<Rightarrow> u32 \<Rightarrow> bool \<Rightarrow> int \<times> heap" where
  "map_to_pos_S_FX_NCOB h data_buf n zero_mode_used =
     (if n = 0 then (0, h)
      else if data_buf = NULL then (- 1, h)
      else (0, h\<lparr>memS_FX_NCOB := (memS_FX_NCOB h)(data_buf :=
                  for_each
                    (\<lambda>s. s\<lparr>EXPOSURE_FLAGS := map_to_pos_alg_8 (EXPOSURE_FLAGS s),
                             FX := bias zero_mode_used (map_to_pos_alg_32 (FX s)),
                             NCOB_X := bias zero_mode_used (map_to_pos_alg_32 (NCOB_X s)),
                             NCOB_Y := bias zero_mode_used (map_to_pos_alg_32 (NCOB_Y s))\<rparr>)
                    (unat n) 0 (memS_FX_NCOB h data_buf))\<rparr>))"

definition map_to_pos_S_FX_EFX_NCOB_ECOB :: "heap \<Rightarrow> addr \<Rightarrow> u32 \<Rightarrow> bool \<Rightarrow> int \<times> heap" where
  "map_to_pos_S_FX_EFX_NCOB_ECOB h data_buf n zero_mode_used =
     (if n = 0 then (0, h)
      else if data_buf = NULL then (- 1, h)
      else (0, h\<lparr>memS_FX_EFX_NCOB_ECOB := (memS_FX_EFX_NCOB_ECOB h)(data_buf :=
                  for_each
                    (\<lambda>s. s\<lparr>EXPOSURE_FLAGS := map_to_pos_alg_8 (EXPOSURE_FLAGS s),
                             FX := bias zero_mode_used (map_to_pos_alg_32 (FX s)),
                             NCOB_X := bias zero_mode_used (map_to_pos_alg_32 (NCOB_X s)),
                             NCOB_Y := bias zero_mode_used (map_to_pos_alg_32 (NCOB_Y s)),
                             S_FX_EFX_NCOB_ECOB.EFX :=
                               bias zero_mode_used
                                 (map_to_pos_alg_32 (S_FX_EFX_NCOB_ECOB.EFX s)),
                             ECOB_X := bias zero_mode_used (map_to_pos_alg_32 (ECOB_X s)),
                             ECOB_Y := bias zero_mode_used (map_to_pos_alg_32 (ECOB_Y s))\<rparr>)
                    (unat n) 0 (memS_FX_EFX_NCOB_ECOB h data_buf))\<rparr>))"

definition map_to_pos :: "cmp_cfg \<Rightarrow> heap \<Rightarrow> int \<times> heap" where
  "map_to_pos cfg h =
     (if samples cfg = 0 then (0, h)
      else if input_buf cfg = NULL then (- 1, h)
      else
        let zero_mode_used = zero_escape_mech_is_used (cmp_mode cfg);
            m16 = map_to_pos_16 h (input_buf cfg) (samples cfg) zero_mode_used;
            m32 = map_to_pos_32 h (input_buf cfg) (samples cfg) zero_mode_used;
            mS_FX = map_to_pos_S_FX h (input_buf cfg) (samples cfg) zero_mode_used;
            mS_FX_EFX = map_to_pos_S_FX_EFX h (input_buf cfg) (samples cfg) zero_mode_used;
            mS_FX_NCOB = map_to_pos_S_FX_NCOB h (input_buf cfg) (samples cfg) zero_mode_used;
            mS_FX_EFX_NCOB_ECOB =
              map_to_pos_S_FX_EFX_NCOB_ECOB h (input_buf cfg) (samples cfg) zero_mode_used
        in case cmp_mode cfg of
             MODE_RAW \<Rightarrow> (0, h)
           | MODE_RAW_S_FX \<Rightarrow> (0, h)
           | MODE_MODEL_ZERO \<Rightarrow> m16 | MODE_MODEL_MULTI \<Rightarrow> m16
           | MODE_DIFF_ZERO \<Rightarrow> m16 | MODE_DIFF_MULTI \<Rightarrow> m16
           | MODE_MODEL_ZERO_S_FX \<Rightarrow> mS_FX | MODE_MODEL_MULTI_S_FX \<Rightarrow> mS_FX
           | MODE_DIFF_ZERO_S_FX \<Rightarrow> mS_FX | MODE_DIFF_MULTI_S_FX \<Rightarrow> mS_FX
           | MODE_MODEL_ZERO_S_FX_EFX \<Rightarrow> mS_FX_EFX | MODE_MODEL_MULTI_S_FX_EFX \<Rightarrow> mS_FX_EFX
           | MODE_DIFF_ZERO_S_FX_EFX \<Rightarrow> mS_FX_EFX | MODE_DIFF_MULTI_S_FX_EFX \<Rightarrow> mS_FX_EFX
           | MODE_MODEL_ZERO_S_FX_NCOB \<Rightarrow> mS_FX_NCOB | MODE_MODEL_MULTI_S_FX_NCOB \<Rightarrow> mS_FX_NCOB
           | MODE_DIFF_ZERO_S_FX_NCOB \<Rightarrow> mS_FX_NCOB | MODE_DIFF_MULTI_S_FX_NCOB \<Rightarrow> mS_FX_NCOB
           | MODE_MODEL_ZERO_S_FX_EFX_NCOB_ECOB \<Rightarrow> mS_FX_EFX_NCOB_ECOB
           | MODE_MODEL_MULTI_S_FX_EFX_NCOB_ECOB \<Rightarrow> mS_FX_EFX_NCOB_ECOB
           | MODE_DIFF_ZERO_S_FX_EFX_NCOB_ECOB \<Rightarrow> mS_FX_EFX_NCOB_ECOB
           | MODE_DIFF_MULTI_S_FX_EFX_NCOB_ECOB \<Rightarrow> mS_FX_EFX_NCOB_ECOB
           | MODE_MODEL_ZERO_32 \<Rightarrow> m32 | MODE_MODEL_MULTI_32 \<Rightarrow> m32
           | MODE_DIFF_ZERO_32 \<Rightarrow> m32 | MODE_DIFF_MULTI_32 \<Rightarrow> m32
           | MODE_MODEL_ZERO_F_FX \<Rightarrow> m32 | MODE_MODEL_MULTI_F_FX \<Rightarrow> m32
           | MODE_DIFF_ZERO_F_FX \<Rightarrow> m32 | MODE_DIFF_MULTI_F_FX \<Rightarrow> m32
           | MODE_UNSUPPORTED _ \<Rightarrow> (- 1, h))"

section \<open>Code words\<close>

text \<open>
  The encoders return the length of the code word and store the code word through a
  pointer; the model returns the pair (length, code word). All variables are
  \<open>unsigned int\<close>. C leaves a shift by 32 or more undefined; \<open>push_bit\<close> and
  \<open>drop_bit\<close> yield 0 there, and the theorems on code words assume shift counts below 32.
\<close>

definition Rice_encoder :: "u32 \<Rightarrow> u32 \<Rightarrow> u32 \<Rightarrow> u32 \<times> u32" where
  "Rice_encoder val m log2_m =
     (let g = drop_bit (unat log2_m) val;
          q = push_bit (unat g) 1 - 1;
          r = val AND (m - 1);
          rl = log2_m + 1;
          cw = push_bit (unat rl) q OR r
      in (rl + g, cw))"

definition Golomb_encoder :: "u32 \<Rightarrow> u32 \<Rightarrow> u32 \<Rightarrow> u32 \<times> u32" where
  "Golomb_encoder val m log2_m =
     (let len0 = log2_m + 1;
          cutoff = push_bit (unat (log2_m + 1)) 1 - m;
          cutoff = (if cutoff = 0 then m else cutoff)
      in if val < cutoff then (len0, val)
         else
           let b = push_bit 1 cutoff;
               g = (val - cutoff) div m;
               lg = len0 + g;
               q = push_bit (unat g) 1 - 1;
               cw = push_bit (unat (len0 + 1)) q + b + (val - cutoff) - g * m
           in (lg + 1, cw))"

datatype encoder_ptr = Rice_encoder_ptr | Golomb_encoder_ptr

definition call_encoder :: "encoder_ptr \<Rightarrow> u32 \<Rightarrow> u32 \<Rightarrow> u32 \<Rightarrow> u32 \<times> u32" where
  "call_encoder e val m log2_m =
     (case e of
        Rice_encoder_ptr \<Rightarrow> Rice_encoder val m log2_m
      | Golomb_encoder_ptr \<Rightarrow> Golomb_encoder val m log2_m)"

definition select_encoder :: "cmp_support \<Rightarrow> u32 \<Rightarrow> encoder_ptr option" where
  "select_encoder env par =
     (if par = 0 then None
      else if is_a_pow_of_2 env par then Some Rice_encoder_ptr
      else Some Golomb_encoder_ptr)"

section \<open>Bit packer\<close>

text \<open>
  \<open>put_n_bits32\<close> writes the \<open>nBits\<close> low bits of a value at bit \<open>bitOffset\<close> of a
  stream of 32-bit words and returns the number of bits written, 0 for a length of 0 or
  above 32, and \<open>-2U\<close> when the stream has no room. The capacity check comes first. The
  model returns the result and the stream.
\<close>

definition put_n_bits32 ::
  "u32 \<Rightarrow> u32 \<Rightarrow> u32 \<Rightarrow> (nat \<Rightarrow> u32) \<Rightarrow> u32 \<Rightarrow> u32 \<times> (nat \<Rightarrow> u32)" where
  "put_n_bits32 val bitOffset nBits destAddr dest_len =
     (if bitOffset + nBits > ((dest_len + 1) div 2) * 2 * 16 then (- 2, destAddr)
      else if nBits = 0 then (0, destAddr)
      else if nBits > 32 then (0, destAddr)
      else
        let localAddr = unat (drop_bit 5 bitOffset);
            bitsLeft = bitOffset AND 0x1f;
            shiftRight = 32 - nBits;
            mask = drop_bit (unat shiftRight) (0xffffffff :: u32);
            val = val AND mask;
            localEndPos = bitsLeft + nBits
        in if localEndPos \<le> 32 then
             let shiftLeft = shiftRight - bitsLeft;
                 mask = push_bit (unat shiftLeft) mask;
                 w = destAddr localAddr AND NOT mask;
                 w = w OR push_bit (unat (32 - localEndPos)) val
             in (nBits, destAddr(localAddr := w))
           else
             let n2 = bitsLeft + nBits - 32;
                 shiftRight = bitsLeft;
                 mask = drop_bit (unat shiftRight) (0xffffffff :: u32);
                 w = destAddr localAddr AND NOT mask;
                 w = w OR drop_bit (unat n2) val;
                 destAddr = destAddr(localAddr := w);
                 localAddr = localAddr + 1;
                 shiftLeft = 64 - bitsLeft - nBits;
                 mask = push_bit (unat shiftLeft) (0xffffffff :: u32);
                 w = destAddr localAddr AND NOT mask;
                 w = w OR push_bit (unat (32 - n2)) val
             in (nBits, destAddr(localAddr := w)))"

section \<open>Entropy encoder\<close>

text \<open>
  \<open>struct encoder_struct\<close>; its field \<open>cmp_size\<close> (the bit cursor) is \<open>enc_cmp_size\<close>
  here, \<open>cmp_size\<close> being the field of the result record. The encoding functions change
  the encoder state and the output buffer through pointers; the model returns the
  error code with the new encoder state and the new store.
\<close>

record encoder_struct =
  encoder :: "encoder_ptr option"
  log2_golomb_par :: u32
  enc_cmp_size :: u32

type_synonym enc_result = "int \<times> encoder_struct \<times> heap"

definition put_bits ::
  "u32 \<Rightarrow> u32 \<Rightarrow> u32 \<Rightarrow> cmp_cfg \<Rightarrow> heap \<Rightarrow> int \<times> heap" where
  "put_bits val bitOffset nBits cfg h =
     (let (r, out) = put_n_bits32 val bitOffset nBits
                       (mem32 h (icu_output_buf cfg)) (buffer_length cfg)
      in (sint r, h\<lparr>mem32 := (mem32 h)(icu_output_buf cfg := out)\<rparr>))"

definition encode_normal :: "u32 \<Rightarrow> cmp_cfg \<Rightarrow> encoder_struct \<Rightarrow> heap \<Rightarrow> enc_result" where
  "encode_normal value_to_encode cfg enc h =
     (case encoder enc of
        None \<Rightarrow> (- 1, enc, h)
      | Some e \<Rightarrow>
          let (cw_len, code_word) =
                call_encoder e value_to_encode (golomb_par cfg) (log2_golomb_par enc);
              (err, h1) = put_bits code_word (enc_cmp_size enc) cw_len cfg h
          in if err \<le> 0 then (err, enc, h1)
             else (0, enc\<lparr>enc_cmp_size := enc_cmp_size enc + cw_len\<rparr>, h1))"

text \<open>
  Both outlier encoders call \<open>encode_normal\<close> for the escape symbol and drop its return
  value; only the write of the unencoded bits is checked.
\<close>

definition encode_outlier_zero ::
  "u32 \<Rightarrow> int \<Rightarrow> cmp_cfg \<Rightarrow> encoder_struct \<Rightarrow> heap \<Rightarrow> enc_result" where
  "encode_outlier_zero value_to_encode max_bits cfg enc h =
     (if max_bits > 32 then (- 1, enc, h)
      else
        let (ignored, enc1, h1) = encode_normal 0 cfg enc h;
            (err, h2) = put_bits value_to_encode (enc_cmp_size enc1) (word_of_int max_bits) cfg h1
        in if err \<le> 0 then (err, enc1, h2)
           else (0, enc1\<lparr>enc_cmp_size := enc_cmp_size enc1 + word_of_int max_bits\<rparr>, h2))"

definition cal_multi_offset :: "u32 \<Rightarrow> int" where
  "cal_multi_offset unencoded_data =
     (if unencoded_data \<le> 0x3 then 0
      else if unencoded_data \<le> 0xF then 1
      else if unencoded_data \<le> 0x3F then 2
      else if unencoded_data \<le> 0xFF then 3
      else if unencoded_data \<le> 0x3FF then 4
      else if unencoded_data \<le> 0xFFF then 5
      else if unencoded_data \<le> 0x3FFF then 6
      else if unencoded_data \<le> 0xFFFF then 7
      else if unencoded_data \<le> 0x3FFFF then 8
      else if unencoded_data \<le> 0xFFFFF then 9
      else if unencoded_data \<le> 0x3FFFFF then 10
      else if unencoded_data \<le> 0xFFFFFF then 11
      else if unencoded_data \<le> 0x3FFFFFF then 12
      else if unencoded_data \<le> 0xFFFFFFF then 13
      else if unencoded_data \<le> 0x3FFFFFFF then 14
      else 15)"

definition unencoded_data_len :: "u32 \<Rightarrow> u32" where
  "unencoded_data_len unencoded_data = word_of_int ((cal_multi_offset unencoded_data + 1) * 2)"

definition encode_outlier_multi ::
  "u32 \<Rightarrow> cmp_cfg \<Rightarrow> encoder_struct \<Rightarrow> heap \<Rightarrow> enc_result" where
  "encode_outlier_multi value_to_encode cfg enc h =
     (let unencoded_data = value_to_encode - spill cfg;
          escape_sym_offset = cal_multi_offset unencoded_data;
          escape_sym = spill cfg + word_of_int escape_sym_offset;
          (ignored, enc1, h1) = encode_normal escape_sym cfg enc h;
          (err, h2) = put_bits unencoded_data (enc_cmp_size enc1)
                        (unencoded_data_len unencoded_data) cfg h1
      in if err \<le> 0 then (err, enc1, h2)
         else (0, enc1\<lparr>enc_cmp_size :=
                       enc_cmp_size enc1 + unencoded_data_len unencoded_data\<rparr>, h2))"

definition encode_outlier ::
  "u32 \<Rightarrow> int \<Rightarrow> cmp_cfg \<Rightarrow> encoder_struct \<Rightarrow> heap \<Rightarrow> enc_result" where
  "encode_outlier value_to_encode bit_len cfg enc h =
     (if multi_escape_mech_is_used (cmp_mode cfg)
      then encode_outlier_multi value_to_encode cfg enc h
      else if zero_escape_mech_is_used (cmp_mode cfg)
      then encode_outlier_zero value_to_encode bit_len cfg enc h
      else (- 1, enc, h))"

definition encode_value ::
  "u32 \<Rightarrow> int \<Rightarrow> cmp_cfg \<Rightarrow> encoder_struct \<Rightarrow> heap \<Rightarrow> enc_result" where
  "encode_value value_to_encode bit_len cfg enc h =
     (if value_to_encode \<ge> spill cfg \<or>
         (zero_escape_mech_is_used (cmp_mode cfg) \<and> value_to_encode = 0)
      then encode_outlier value_to_encode bit_len cfg enc h
      else encode_normal value_to_encode cfg enc h)"

text \<open>
  The raw modes copy \<open>samples * size_of_a_sample\<close> bytes to the output buffer and
  convert each sample to big endian. The byte layout of the samples is not modelled:
  copy and conversion together are the parameter \<open>raw_copy\<close>. The \<open>size_t\<close> arithmetic
  is exact (no wrap-around); the bit count is cut to 32 bits by the assignment.
\<close>

definition encode_raw :: "cmp_support \<Rightarrow> cmp_cfg \<Rightarrow> encoder_struct \<Rightarrow> heap \<Rightarrow> enc_result" where
  "encode_raw env cfg enc h =
     (if icu_output_buf cfg = NULL then (- 1, enc, h)
      else if input_buf cfg = NULL then (- 1, enc, h)
      else
        let cmp_size_in_bytes = unat (samples cfg) * size_of_a_sample env (cmp_mode cfg);
            enc1 = enc\<lparr>enc_cmp_size := of_nat (cmp_size_in_bytes * 8)\<rparr>
        in if cmp_size_in_bytes > unat (buffer_length cfg) * 2 then (- 1, enc1, h)
           else (0, enc1, raw_copy env (cmp_mode cfg) h (input_buf cfg) (icu_output_buf cfg)
                            cmp_size_in_bytes))"

text \<open>
  The sample loops of the encoders leave at the first error:
  \<^verbatim>\<open>for (i = 0; i < cfg->samples; i++) { int err = ...; if (err) return err; }\<close>
\<close>

definition on_ok :: "enc_result \<Rightarrow> (encoder_struct \<Rightarrow> heap \<Rightarrow> enc_result) \<Rightarrow> enc_result" where
  "on_ok r f = (case r of (err, enc, h) \<Rightarrow> if err \<noteq> 0 then (err, enc, h) else f enc h)"

fun encode_loop ::
  "(nat \<Rightarrow> encoder_struct \<Rightarrow> heap \<Rightarrow> enc_result) \<Rightarrow> nat \<Rightarrow> nat \<Rightarrow>
   encoder_struct \<Rightarrow> heap \<Rightarrow> enc_result" where
  "encode_loop body 0 i enc h = (0, enc, h)"
| "encode_loop body (Suc n) i enc h =
     on_ok (body i enc h) (encode_loop body n (Suc i))"

definition encode_16 :: "addr \<Rightarrow> cmp_cfg \<Rightarrow> encoder_struct \<Rightarrow> heap \<Rightarrow> enc_result" where
  "encode_16 data_to_encode cfg enc h =
     (if samples cfg = 0 then (0, enc, h)
      else if data_to_encode = NULL then (- 1, enc, h)
      else encode_loop
             (\<lambda>i enc h. encode_value (ucast (mem16 h data_to_encode i)) 16 cfg enc h)
             (unat (samples cfg)) 0 enc h)"

definition encode_32 :: "cmp_cfg \<Rightarrow> encoder_struct \<Rightarrow> heap \<Rightarrow> enc_result" where
  "encode_32 cfg enc h =
     encode_loop (\<lambda>i enc h. encode_value (mem32 h (input_buf cfg) i) 32 cfg enc h)
       (unat (samples cfg)) 0 enc h"

text \<open>
  \<open>encode_S_FX\<close> keeps a second configuration and a second encoder state for the
  exposure flags: copies of the caller's, with the Golomb parameter and its logarithm
  replaced by those of \<open>GOLOMB_PAR_EXPOSURE_FLAGS\<close> (the encoder function of the copy
  stays the one selected for the configured parameter). The bit cursor is carried
  from one state to the other after every field. The outlier counter of the source
  is not used for anything and is left out.
\<close>

definition encode_S_FX_step ::
  "cmp_support \<Rightarrow> cmp_cfg \<Rightarrow> nat \<Rightarrow> encoder_struct \<times> encoder_struct \<Rightarrow> heap \<Rightarrow>
   int \<times> (encoder_struct \<times> encoder_struct) \<times> heap" where
  "encode_S_FX_step env cfg i encs h =
     (let (enc, enc_exp_flag) = encs;
          cfg_exp_flag = cfg\<lparr>golomb_par := GOLOMB_PAR_EXPOSURE_FLAGS env\<rparr>;
          (err, enc_exp_flag, h1) =
            encode_normal (ucast (EXPOSURE_FLAGS (memS_FX h (input_buf cfg) i)))
              cfg_exp_flag enc_exp_flag h
      in if err \<noteq> 0 then (err, (enc, enc_exp_flag), h1)
         else
           let enc = enc\<lparr>enc_cmp_size := enc_cmp_size enc_exp_flag\<rparr>;
               enc = enc\<lparr>log2_golomb_par := ilog_2 env (golomb_par cfg)\<rparr>;
               (err, enc, h2) = encode_value (FX (memS_FX h1 (input_buf cfg) i)) 32 cfg enc h1
           in if err \<noteq> 0 then (err, (enc, enc_exp_flag), h2)
              else (0, (enc, enc_exp_flag\<lparr>enc_cmp_size := enc_cmp_size enc\<rparr>), h2))"

fun encode_S_FX_loop ::
  "cmp_support \<Rightarrow> cmp_cfg \<Rightarrow> nat \<Rightarrow> nat \<Rightarrow> encoder_struct \<times> encoder_struct \<Rightarrow> heap \<Rightarrow>
   int \<times> (encoder_struct \<times> encoder_struct) \<times> heap" where
  "encode_S_FX_loop env cfg 0 i encs h = (0, encs, h)"
| "encode_S_FX_loop env cfg (Suc n) i encs h =
     (case encode_S_FX_step env cfg i encs h of
        (err, encs1, h1) \<Rightarrow>
          if err \<noteq> 0 then (err, encs1, h1) else encode_S_FX_loop env cfg n (Suc i) encs1 h1)"

definition encode_S_FX :: "cmp_support \<Rightarrow> cmp_cfg \<Rightarrow> encoder_struct \<Rightarrow> heap \<Rightarrow> enc_result" where
  "encode_S_FX env cfg enc h =
     (let enc_exp_flag = enc\<lparr>log2_golomb_par := ilog_2 env (GOLOMB_PAR_EXPOSURE_FLAGS env)\<rparr>
      in case encode_S_FX_loop env cfg (unat (samples cfg)) 0 (enc, enc_exp_flag) h of
           (err, (enc1, enc_exp_flag1), h1) \<Rightarrow> (err, enc1, h1))"

definition encode_S_FX_EFX :: "cmp_cfg \<Rightarrow> encoder_struct \<Rightarrow> heap \<Rightarrow> enc_result" where
  "encode_S_FX_EFX cfg enc h =
     encode_loop
       (\<lambda>i enc h.
          on_ok (encode_value (ucast (EXPOSURE_FLAGS (memS_FX_EFX h (input_buf cfg) i)))
                   8 cfg enc h) (\<lambda>enc h.
          on_ok (encode_value (FX (memS_FX_EFX h (input_buf cfg) i)) 32 cfg enc h) (\<lambda>enc h.
          encode_value (S_FX_EFX.EFX (memS_FX_EFX h (input_buf cfg) i)) 32 cfg enc h)))
       (unat (samples cfg)) 0 enc h"

definition encode_S_FX_NCOB :: "cmp_cfg \<Rightarrow> encoder_struct \<Rightarrow> heap \<Rightarrow> enc_result" where
  "encode_S_FX_NCOB cfg enc h =
     encode_loop
       (\<lambda>i enc h.
          on_ok (encode_value (ucast (EXPOSURE_FLAGS (memS_FX_NCOB h (input_buf cfg) i)))
                   8 cfg enc h) (\<lambda>enc h.
          on_ok (encode_value (FX (memS_FX_NCOB h (input_buf cfg) i)) 32 cfg enc h) (\<lambda>enc h.
          on_ok (encode_value (NCOB_X (memS_FX_NCOB h (input_buf cfg) i)) 32 cfg enc h) (\<lambda>enc h.
          encode_value (NCOB_Y (memS_FX_NCOB h (input_buf cfg) i)) 32 cfg enc h))))
       (unat (samples cfg)) 0 enc h"

definition encode_S_FX_EFX_NCOB_ECOB :: "cmp_cfg \<Rightarrow> encoder_struct \<Rightarrow> heap \<Rightarrow> enc_result" where
  "encode_S_FX_EFX_NCOB_ECOB cfg enc h =
     encode_loop
       (\<lambda>i enc h.
          on_ok (encode_value
                   (ucast (EXPOSURE_FLAGS (memS_FX_EFX_NCOB_ECOB h (input_buf cfg) i)))
                   8 cfg enc h) (\<lambda>enc h.
          on_ok (encode_value (FX (memS_FX_EFX_NCOB_ECOB h (input_buf cfg) i))
                   32 cfg enc h) (\<lambda>enc h.
          on_ok (encode_value (NCOB_X (memS_FX_EFX_NCOB_ECOB h (input_buf cfg) i))
                   32 cfg enc h) (\<lambda>enc h.
          on_ok (encode_value (NCOB_Y (memS_FX_EFX_NCOB_ECOB h (input_buf cfg) i))
                   32 cfg enc h) (\<lambda>enc h.
          on_ok (encode_value
                   (S_FX_EFX_NCOB_ECOB.EFX (memS_FX_EFX_NCOB_ECOB h (input_buf cfg) i))
                   32 cfg enc h) (\<lambda>enc h.
          on_ok (encode_value (ECOB_X (memS_FX_EFX_NCOB_ECOB h (input_buf cfg) i))
                   32 cfg enc h) (\<lambda>enc h.
          encode_value (ECOB_Y (memS_FX_EFX_NCOB_ECOB h (input_buf cfg) i))
            32 cfg enc h)))))))
       (unat (samples cfg)) 0 enc h"

section \<open>Encoding stage and pipeline\<close>

text \<open>
  Modelled from the spec: the byte swap \<open>cpu_to_be32s\<close> of byteorder.h on a little
  endian host (section 4.4: each completed 32-bit word of the output is byte-swapped to
  big endian in a final pass).
\<close>

definition swab32 :: "u32 \<Rightarrow> u32" where
  "swab32 w =
     push_bit 24 (w AND 0xff) OR push_bit 8 (w AND 0xff00) OR
     (drop_bit 8 w AND 0xff00) OR drop_bit 24 w"

text \<open>
  \<open>encode_data\<close>: selects the encoder, runs the sample encoder of the mode, records
  the size, pads the stream to a 32-bit boundary and converts the words to big endian.
  Only the error -2 of the sample encoder is passed on; after any other error the
  function goes on and returns 0. Where the source dereferences \<open>info\<close> without a
  check, the model leaves an absent record absent.
\<close>

definition encode_data ::
  "cmp_support \<Rightarrow> cmp_cfg \<Rightarrow> cmp_info option \<Rightarrow> heap \<Rightarrow> int \<times> cmp_info option \<times> heap" where
  "encode_data env cfg info h =
     (let enc = \<lparr>encoder = select_encoder env (golomb_par cfg),
                 log2_golomb_par = ilog_2 env (golomb_par cfg),
                 enc_cmp_size = 0\<rparr>;
          e16 = Some (encode_16 (input_buf cfg) cfg enc h);
          eS_FX = Some (encode_S_FX env cfg enc h);
          eS_FX_EFX = Some (encode_S_FX_EFX cfg enc h);
          eS_FX_NCOB = Some (encode_S_FX_NCOB cfg enc h);
          eS_FX_EFX_NCOB_ECOB = Some (encode_S_FX_EFX_NCOB_ECOB cfg enc h);
          e32 = Some (encode_32 cfg enc h);
          r = (case cmp_mode cfg of
                 MODE_RAW \<Rightarrow> Some (encode_raw env cfg enc h)
               | MODE_MODEL_ZERO \<Rightarrow> e16 | MODE_MODEL_MULTI \<Rightarrow> e16
               | MODE_DIFF_ZERO \<Rightarrow> e16 | MODE_DIFF_MULTI \<Rightarrow> e16
               | MODE_RAW_S_FX \<Rightarrow> Some (encode_raw env cfg enc h)
               | MODE_MODEL_ZERO_S_FX \<Rightarrow> eS_FX | MODE_MODEL_MULTI_S_FX \<Rightarrow> eS_FX
               | MODE_DIFF_ZERO_S_FX \<Rightarrow> eS_FX | MODE_DIFF_MULTI_S_FX \<Rightarrow> eS_FX
               | MODE_MODEL_ZERO_S_FX_EFX \<Rightarrow> eS_FX_EFX | MODE_MODEL_MULTI_S_FX_EFX \<Rightarrow> eS_FX_EFX
               | MODE_DIFF_ZERO_S_FX_EFX \<Rightarrow> eS_FX_EFX | MODE_DIFF_MULTI_S_FX_EFX \<Rightarrow> eS_FX_EFX
               | MODE_MODEL_ZERO_S_FX_NCOB \<Rightarrow> eS_FX_NCOB
               | MODE_MODEL_MULTI_S_FX_NCOB \<Rightarrow> eS_FX_NCOB
               | MODE_DIFF_ZERO_S_FX_NCOB \<Rightarrow> eS_FX_NCOB
               | MODE_DIFF_MULTI_S_FX_NCOB \<Rightarrow> eS_FX_NCOB
               | MODE_MODEL_ZERO_S_FX_EFX_NCOB_ECOB \<Rightarrow> eS_FX_EFX_NCOB_ECOB
               | MODE_MODEL_MULTI_S_FX_EFX_NCOB_ECOB \<Rightarrow> eS_FX_EFX_NCOB_ECOB
               | MODE_DIFF_ZERO_S_FX_EFX_NCOB_ECOB \<Rightarrow> eS_FX_EFX_NCOB_ECOB
               | MODE_DIFF_MULTI_S_FX_EFX_NCOB_ECOB \<Rightarrow> eS_FX_EFX_NCOB_ECOB
               | MODE_MODEL_ZERO_32 \<Rightarrow> e32 | MODE_MODEL_MULTI_32 \<Rightarrow> e32
               | MODE_DIFF_ZERO_32 \<Rightarrow> e32 | MODE_DIFF_MULTI_32 \<Rightarrow> e32
               | MODE_MODEL_ZERO_F_FX \<Rightarrow> e32 | MODE_MODEL_MULTI_F_FX \<Rightarrow> e32
               | MODE_DIFF_ZERO_F_FX \<Rightarrow> e32 | MODE_DIFF_MULTI_F_FX \<Rightarrow> e32
               | MODE_UNSUPPORTED _ \<Rightarrow> None)
      in case r of
           None \<Rightarrow> (- 1, info, h)
         | Some (err, enc, h1) \<Rightarrow>
             if err = - 2 then (err, set_err SMALL_BUFFER_ERR_BIT info, h1)
             else
               let info = map_option (\<lambda>i. i\<lparr>cmp_size := enc_cmp_size enc\<rparr>) info
               in if \<not> raw_mode_is_used (cmp_mode cfg) \<and> enc_cmp_size enc \<noteq> 0 then
                    let n_pad_bits = sint (32 - (enc_cmp_size enc AND 0x1f));
                        (n_bits, h2) =
                          (if n_pad_bits < 32
                           then put_bits 0 (enc_cmp_size enc) (word_of_int n_pad_bits) cfg h1
                           else (0, h1))
                    in if n_pad_bits < 32 \<and> n_bits \<le> 0
                       then (- 2,
                             map_option (\<lambda>i. i\<lparr>cmp_size := 0\<rparr>)
                               (set_err SMALL_BUFFER_ERR_BIT info), h2)
                       else
                         let words = unat ((enc_cmp_size enc + word_of_int n_bits) div 32);
                             out = mem32 h2 (icu_output_buf cfg);
                             h3 = (if little_endian env
                                   then h2\<lparr>mem32 := (mem32 h2)(icu_output_buf cfg :=
                                               for_each swab32 words 0 out)\<rparr>
                                   else h2)
                         in (0, info, h3)
                  else (0, info, h1))"

text \<open>
  \<open>icu_compress_data\<close>: the pipeline. Every stage that returns a non-zero status ends
  the call with that status.
\<close>

definition icu_compress_data ::
  "cmp_support \<Rightarrow> cmp_cfg \<Rightarrow> cmp_info option \<Rightarrow> heap \<Rightarrow> int \<times> cmp_info option \<times> heap" where
  "icu_compress_data env cfg info h =
     (let (err, info) = set_info env cfg info
      in if err \<noteq> 0 then (err, info, h)
         else
           let (err, info) = icu_cmp_cfg_valid env cfg info
           in if err \<noteq> 0 then (err, info, h)
              else
                let (err, h) = pre_process env cfg h
                in if err \<noteq> 0 then (err, info, h)
                   else
                     let (err, h) = map_to_pos cfg h
                     in if err \<noteq> 0 then (err, info, h)
                        else encode_data env cfg info h)"

section \<open>Capacity and example data\<close>

text \<open>
  The capacity of an output buffer of \<open>dest_len\<close> 16-bit words, in bits, as a natural
  number: the right-hand side of the first test of \<open>put_n_bits32\<close> without wrap-around.
\<close>

definition capacity_bits :: "u32 \<Rightarrow> nat" where
  "capacity_bits dest_len = ((unat dest_len + 1) div 2) * 2 * 16"

text \<open>
  A store of zeros and a buffer holding the elements of a list, for the concrete runs.
\<close>

definition list_buf :: "'a list \<Rightarrow> 'a \<Rightarrow> nat \<Rightarrow> 'a" where
  "list_buf xs d i = (if i < length xs then xs ! i else d)"

definition zero_heap :: heap where
  "zero_heap =
     \<lparr>mem16 = (\<lambda>a i. 0), mem32 = (\<lambda>a i. 0),
      memS_FX = (\<lambda>a i. \<lparr>EXPOSURE_FLAGS = 0, FX = 0\<rparr>),
      memS_FX_EFX = (\<lambda>a i. \<lparr>EXPOSURE_FLAGS = 0, FX = 0, S_FX_EFX.EFX = 0\<rparr>),
      memS_FX_NCOB = (\<lambda>a i. \<lparr>EXPOSURE_FLAGS = 0, FX = 0, NCOB_X = 0, NCOB_Y = 0\<rparr>),
      memS_FX_EFX_NCOB_ECOB =
        (\<lambda>a i. \<lparr>EXPOSURE_FLAGS = 0, FX = 0, NCOB_X = 0, NCOB_Y = 0,
                 S_FX_EFX_NCOB_ECOB.EFX = 0, ECOB_X = 0, ECOB_Y = 0\<rparr>)\<rparr>"

definition heap_diff_example :: heap where
  "heap_diff_example =
     zero_heap\<lparr>mem16 := (mem16 zero_heap)(1 := list_buf [10, 12, 9, 9] 0),
               mem32 := (mem32 zero_heap)(1 := list_buf [10, 12, 9, 9] 0)\<rparr>"

text \<open>
  The cutoff of \<open>Golomb_encoder\<close> and the group of a value as natural numbers, without
  wrap-around.
\<close>

definition Golomb_cutoff :: "u32 \<Rightarrow> u32 \<Rightarrow> nat" where
  "Golomb_cutoff m log2_m = 2 ^ (unat log2_m + 1) - unat m"

definition Golomb_group :: "u32 \<Rightarrow> u32 \<Rightarrow> u32 \<Rightarrow> nat" where
  "Golomb_group val m log2_m = (unat val - Golomb_cutoff m log2_m) div unat m"

text \<open>
  The Golomb code word in the words of the specification (section 4.4), for the
  comparison with \<open>Golomb_encoder\<close>: the cutoff is \<open>c = 2^(\<lceil>log2 m\<rceil> + 1) - m\<close>, and \<open>m\<close>
  where that is 0; a value \<open>u < c\<close> is emitted in \<open>log2_m + 1\<close> bits; a value \<open>u \<ge> c\<close> as
  the group index \<open>g = (u - c) / m\<close> in unary (\<open>g\<close> ones and a closing bit) followed by
  \<open>log2_m + 1\<close> bits, closing bit and suffix together holding \<open>c * 2 + (u - c) - g * m\<close>.
  The result is the pair of the length and the code word.
\<close>

fun ceil_log2_from :: "nat \<Rightarrow> nat \<Rightarrow> nat \<Rightarrow> nat" where
  "ceil_log2_from 0 k m = k"
| "ceil_log2_from (Suc fuel) k m = (if m \<le> 2 ^ k then k else ceil_log2_from fuel (Suc k) m)"

definition ceil_log2 :: "nat \<Rightarrow> nat" where
  "ceil_log2 m = ceil_log2_from m 0 m"

definition claimed_Golomb_cutoff :: "nat \<Rightarrow> nat" where
  "claimed_Golomb_cutoff m =
     (let c = 2 ^ (ceil_log2 m + 1) - m in if c = 0 then m else c)"

definition claimed_Golomb_codeword :: "nat \<Rightarrow> nat \<Rightarrow> nat \<Rightarrow> nat \<times> nat" where
  "claimed_Golomb_codeword u m log2_m =
     (let c = claimed_Golomb_cutoff m
      in if u < c then (log2_m + 1, u)
         else
           let g = (u - c) div m
           in (g + 1 + (log2_m + 1), (2 ^ g - 1) * 2 ^ (log2_m + 2) + (c * 2 + (u - c) - g * m)))"

text \<open>
  A configuration of the mode \<open>MODE_DIFF_MULTI\<close> with Golomb parameter 4, spillover
  threshold 8 and an output buffer of two 16-bit words (32 bits), the encoder state
  \<open>encode_data\<close> starts from when the integer logarithm of 4 is 2, and a store with
  eight 16-bit samples in block 1.
\<close>

definition cfg_example :: cmp_cfg where
  "cfg_example =
     \<lparr>cmp_mode = MODE_DIFF_MULTI, golomb_par = 4, spill = 8, model_value = 8,
      round_par = 0, ap1_golomb_par = 4, ap1_spill = 8, ap2_golomb_par = 4, ap2_spill = 8,
      input_buf = 1, model_buf = 2, icu_new_model_buf = NULL, icu_output_buf = 3,
      samples = 8, buffer_length = 2, rdcu_new_model_adr = 0, rdcu_buffer_adr = 0\<rparr>"

definition enc_example :: encoder_struct where
  "enc_example = \<lparr>encoder = Some Rice_encoder_ptr, log2_golomb_par = 2, enc_cmp_size = 0\<rparr>"

definition heap_example :: heap where
  "heap_example =
     zero_heap\<lparr>mem16 := (mem16 zero_heap)(1 := list_buf [2, 4, 6, 8, 10, 12, 14, 18] 0)\<rparr>"

text \<open>
  An instance of the parameters for the concrete runs. Its values are not taken from
  the sources: the integer logarithm is \<open>\<lfloor>log2 x\<rfloor>\<close>, a power of two has one bit set,
  the model update is the weighted mean \<open>(w * model + (16 - w) * data) / 16\<close>, the
  structured samples are rounded, subtracted and updated field by field, the host is
  big endian, the adaptive checks are off and the raw copy is left out.
\<close>

fun ilog_2_from :: "nat \<Rightarrow> nat \<Rightarrow> nat" where
  "ilog_2_from 0 x = 0"
| "ilog_2_from (Suc fuel) x = (if x < 2 then 0 else Suc (ilog_2_from fuel (x div 2)))"

definition ilog_2_example :: "u32 \<Rightarrow> u32" where
  "ilog_2_example x = (if x = 0 then - 1 else of_nat (ilog_2_from 32 (unat x)))"

definition cal_up_model_example :: "u32 \<Rightarrow> u32 \<Rightarrow> u32 \<Rightarrow> u32" where
  "cal_up_model_example data model w =
     of_nat ((unat w * unat model + (16 - unat w) * unat data) div 16)"

definition get_max_spill_example :: "u32 \<Rightarrow> cmp_mode \<Rightarrow> u32" where
  "get_max_spill_example par m =
     (if par = 0 then 0
      else (31 - ilog_2_example par) * par
           + (push_bit (unat (ilog_2_example par + 1)) 1 - par) - 16)"

definition round_S_FX_example :: "(u32 \<Rightarrow> u32) \<Rightarrow> S_FX \<Rightarrow> S_FX" where
  "round_S_FX_example f s =
     s\<lparr>EXPOSURE_FLAGS := ucast (f (ucast (EXPOSURE_FLAGS s))), FX := f (FX s)\<rparr>"

definition env_example :: cmp_support where
  "env_example =
     \<lparr>mode_code = (\<lambda>m. case m of MODE_UNSUPPORTED n \<Rightarrow> n | _ \<Rightarrow> 0),
      MAX_ICU_GOLOMB_PAR = 0xFFFF,
      MIN_ICU_SPILL = 2,
      get_max_spill = get_max_spill_example,
      GOLOMB_PAR_EXPOSURE_FLAGS = 1,
      ilog_2 = ilog_2_example,
      is_a_pow_of_2 = (\<lambda>x. x \<noteq> 0 \<and> x AND (x - 1) = 0),
      cal_up_model = cal_up_model_example,
      size_of_a_sample = (\<lambda>m. 2),
      lossy_rounding_S_FX =
        (\<lambda>a n k. (0, \<lambda>i. if i < unat n then round_S_FX_example (\<lambda>v. round_fwd v k) (a i) else a i)),
      de_lossy_rounding_S_FX =
        (\<lambda>a n k. (0, \<lambda>i. if i < unat n then round_S_FX_example (\<lambda>v. round_inv v k) (a i) else a i)),
      sub_S_FX =
        (\<lambda>a b. \<lparr>EXPOSURE_FLAGS = EXPOSURE_FLAGS a - EXPOSURE_FLAGS b, FX = FX a - FX b\<rparr>),
      cal_up_model_S_FX =
        (\<lambda>a b w. \<lparr>EXPOSURE_FLAGS =
                    ucast (cal_up_model_example (ucast (EXPOSURE_FLAGS a))
                             (ucast (EXPOSURE_FLAGS b)) w),
                  FX = cal_up_model_example (FX a) (FX b) w\<rparr>),
      lossy_rounding_S_FX_EFX = (\<lambda>a n k. (0, a)),
      sub_S_FX_EFX = (\<lambda>a b. a),
      lossy_rounding_S_FX_NCOB = (\<lambda>a n k. (0, a)),
      sub_S_FX_NCOB = (\<lambda>a b. a),
      lossy_rounding_S_FX_EFX_NCOB_ECOB = (\<lambda>a n k. (0, a)),
      sub_S_FX_EFX_NCOB_ECOB = (\<lambda>a b. a),
      raw_copy = (\<lambda>m h src dst n. h),
      little_endian = False,
      ADAPTIVE_CHECK_ENA = False\<rparr>"

text \<open>
  Model mode configurations with a separate buffer for the updated model (block 4),
  and a store with two samples in block 1, a model in block 2 and other data in block 4.
\<close>

definition cfg_model_example :: "cmp_mode \<Rightarrow> cmp_cfg" where
  "cfg_model_example m =
     cfg_example\<lparr>cmp_mode := m, round_par := 1, icu_new_model_buf := 4, samples := 2,
                 buffer_length := 8\<rparr>"

definition heap_model_example :: heap where
  "heap_model_example =
     zero_heap
       \<lparr>mem16 := (mem16 zero_heap)
          (1 := list_buf [100, 50] 0, 2 := list_buf [96, 60] 0, 4 := list_buf [7, 7] 0),
        mem32 := (mem32 zero_heap)
          (1 := list_buf [100, 50] 0, 2 := list_buf [96, 60] 0, 4 := list_buf [7, 7] 0),
        memS_FX := (memS_FX zero_heap)
          (1 := list_buf [\<lparr>EXPOSURE_FLAGS = 3, FX = 100\<rparr>, \<lparr>EXPOSURE_FLAGS = 1, FX = 50\<rparr>]
                  \<lparr>EXPOSURE_FLAGS = 0, FX = 0\<rparr>,
           2 := list_buf [\<lparr>EXPOSURE_FLAGS = 3, FX = 96\<rparr>, \<lparr>EXPOSURE_FLAGS = 1, FX = 60\<rparr>]
                  \<lparr>EXPOSURE_FLAGS = 0, FX = 0\<rparr>)\<rparr>"

text \<open>
  A result record with stale contents, and two configurations without samples that
  the validator accepts: raw mode with a round parameter of 256, and a differencing
  mode with a model value of 256.
\<close>

definition info_example :: cmp_info where
  "info_example =
     \<lparr>cmp_err = {CMP_PAR_ERR_BIT}, cmp_mode_used = 0, model_value_used = 0, round_used = 0,
      spill_used = 0, golomb_par_used = 0, samples_used = 0, cmp_size = 77,
      ap1_cmp_size = 0, ap2_cmp_size = 0, rdcu_new_model_adr_used = 0,
      rdcu_cmp_adr_used = 0\<rparr>"

definition cfg_raw_example :: cmp_cfg where
  "cfg_raw_example = cfg_example\<lparr>cmp_mode := MODE_RAW, round_par := 256, samples := 0\<rparr>"

definition cfg_diff_zero_example :: cmp_cfg where
  "cfg_diff_zero_example =
     cfg_example\<lparr>cmp_mode := MODE_DIFF_ZERO, model_value := 256, samples := 0\<rparr>"

text \<open>
  Configurations of the structured shapes with one sample, an output buffer of eight
  16-bit words, and a store whose block 1 holds, for every shape, one mapped sample
  with exposure flags 5 and all other fields 0.
\<close>

definition cfg_S_example :: "cmp_mode \<Rightarrow> cmp_cfg" where
  "cfg_S_example m = cfg_example\<lparr>cmp_mode := m, samples := 1, buffer_length := 8\<rparr>"

definition heap_S_example :: heap where
  "heap_S_example =
     zero_heap
       \<lparr>memS_FX := (memS_FX zero_heap)
          (1 := list_buf [\<lparr>EXPOSURE_FLAGS = 5, FX = 0\<rparr>] \<lparr>EXPOSURE_FLAGS = 0, FX = 0\<rparr>),
        memS_FX_EFX := (memS_FX_EFX zero_heap)
          (1 := list_buf [\<lparr>EXPOSURE_FLAGS = 5, FX = 0, S_FX_EFX.EFX = 0\<rparr>]
                  \<lparr>EXPOSURE_FLAGS = 0, FX = 0, S_FX_EFX.EFX = 0\<rparr>),
        memS_FX_NCOB := (memS_FX_NCOB zero_heap)
          (1 := list_buf [\<lparr>EXPOSURE_FLAGS = 5, FX = 0, NCOB_X = 0, NCOB_Y = 0\<rparr>]
                  \<lparr>EXPOSURE_FLAGS = 0, FX = 0, NCOB_X = 0, NCOB_Y = 0\<rparr>),
        memS_FX_EFX_NCOB_ECOB := (memS_FX_EFX_NCOB_ECOB zero_heap)
          (1 := list_buf [\<lparr>EXPOSURE_FLAGS = 5, FX = 0, NCOB_X = 0, NCOB_Y = 0,
                           S_FX_EFX_NCOB_ECOB.EFX = 0, ECOB_X = 0, ECOB_Y = 0\<rparr>]
                  \<lparr>EXPOSURE_FLAGS = 0, FX = 0, NCOB_X = 0, NCOB_Y = 0,
                    S_FX_EFX_NCOB_ECOB.EFX = 0, ECOB_X = 0, ECOB_Y = 0\<rparr>)\<rparr>"

text \<open>
  A store with nine 16-bit samples in block 1 whose differences are all 2, and the
  summary of a run of the encoding stage on the structured samples: status, size in
  bits and first word of the output, for the fixed exposure-flags parameter \<open>g\<close>, the
  configured Golomb parameter \<open>p\<close> and the mode \<open>m\<close>.
\<close>

definition heap_nine_example :: heap where
  "heap_nine_example =
     zero_heap\<lparr>mem16 := (mem16 zero_heap)(1 := list_buf [2, 4, 6, 8, 10, 12, 14, 16, 18] 0)\<rparr>"

definition encode_data_S_example :: "u32 \<Rightarrow> u32 \<Rightarrow> cmp_mode \<Rightarrow> int \<times> u32 option \<times> u32" where
  "encode_data_S_example g p m =
     (let r = encode_data (env_example\<lparr>GOLOMB_PAR_EXPOSURE_FLAGS := g\<rparr>)
                ((cfg_S_example m)\<lparr>golomb_par := p\<rparr>) (Some info_example) heap_S_example
      in (fst r, map_option cmp_size (fst (snd r)), mem32 (snd (snd r)) 3 0))"

text \<open>
  The summary of a run of the pipeline: status, size in bits, error bits and the first
  two words of the output buffer (block 3).
\<close>

definition icu_compress_data_example ::
  "cmp_cfg \<Rightarrow> heap \<Rightarrow> int \<times> u32 option \<times> cmp_err_bit set option \<times> u32 \<times> u32" where
  "icu_compress_data_example cfg h =
     (let r = icu_compress_data env_example cfg (Some info_example) h
      in (fst r, map_option cmp_size (fst (snd r)), map_option cmp_err (fst (snd r)),
          mem32 (snd (snd r)) 3 0, mem32 (snd (snd r)) 3 1))"

text \<open>
  The stores the encoding stage starts from in the runs on \<open>heap_example\<close> and
  \<open>heap_nine_example\<close>: the differences of the samples, mapped to non-negative values.
\<close>

definition heap_mapped_example :: heap where
  "heap_mapped_example =
     zero_heap\<lparr>mem16 := (mem16 zero_heap)(1 := list_buf [4, 4, 4, 4, 4, 4, 4, 8] 0)\<rparr>"

definition heap_mapped_nine_example :: heap where
  "heap_mapped_nine_example =
     zero_heap\<lparr>mem16 := (mem16 zero_heap)(1 := list_buf [4, 4, 4, 4, 4, 4, 4, 4, 4] 0)\<rparr>"

section \<open>The escape offset of the multi escape mechanism\<close>

lemma unencoded_data_len_cases:
  "unencoded_data_len d \<in> {2, 4, 6, 8, 10, 12, 14, 16, 18, 20, 22, 24, 26, 28, 30, 32}"
  unfolding unencoded_data_len_def cal_multi_offset_def by simp

text \<open>
  Claim C10. For every 32-bit value \<open>d\<close>, \<open>cal_multi_offset d\<close> lies between 0 and 15,
  so the length \<open>(offset + 1) * 2\<close> of the unencoded data in \<open>encode_outlier_multi\<close> is
  at least 2 and at most 32; \<open>put_n_bits32\<close> called with this length never takes its
  branch for a length of 0 or above 32: it reports a full buffer or returns the length.
\<close>

theorem cal_multi_offset_range:
  "0 \<le> cal_multi_offset d \<and> cal_multi_offset d \<le> 15 \<and>
   0 < unencoded_data_len d \<and> unencoded_data_len d \<le> 32 \<and>
   (fst (put_n_bits32 v off (unencoded_data_len d) dst len) = - 2 \<or>
    fst (put_n_bits32 v off (unencoded_data_len d) dst len) = unencoded_data_len d)"
proof -
  have a: "0 \<le> cal_multi_offset d \<and> cal_multi_offset d \<le> 15"
    by (simp add: cal_multi_offset_def)
  have b: "0 < unencoded_data_len d \<and> unencoded_data_len d \<le> 32"
    using unencoded_data_len_cases [of d] by (auto simp: word_less_nat_alt word_le_nat_alt)
  then have c: "unencoded_data_len d \<noteq> 0" "\<not> unencoded_data_len d > 32" by auto
  show ?thesis using a b c by (simp add: put_n_bits32_def Let_def)
qed

section \<open>The mapping is a bijection\<close>

lemma uint_word_of_int_small:
  "0 \<le> k \<Longrightarrow> k < 2 ^ LENGTH('a) \<Longrightarrow> uint (word_of_int k :: 'a::len word) = k"
  by (simp only: uint_word_of_int mod_pos_pos_trivial)

text \<open>
  Read as an unsigned number, the image of \<open>v\<close> is \<open>- 2 * sint v - 1\<close> for a negative
  and \<open>2 * sint v\<close> for a non-negative \<open>v\<close>: both lie in the range of the word.
\<close>

lemma uint_zigzag:
  fixes v :: "'a::len word"
  shows "uint (if sint v < 0 then word_of_int ((- sint v) * 2 - 1) :: 'a word
               else word_of_int (sint v * 2)) =
         (if sint v < 0 then (- sint v) * 2 - 1 else sint v * 2)"
proof -
  have lo: "- (2 ^ (LENGTH('a) - 1)) \<le> sint v" by (rule sint_ge)
  have hi: "sint v < 2 ^ (LENGTH('a) - 1)" by (rule sint_lt)
  have p: "(2::int) ^ LENGTH('a) = 2 * 2 ^ (LENGTH('a) - 1)"
    by (metis len_gt_0 power_eq_if not_gr_zero)
  show ?thesis
  proof (cases "sint v < 0")
    case True
    with lo p have "0 \<le> (- sint v) * 2 - 1" "(- sint v) * 2 - 1 < 2 ^ LENGTH('a)" by auto
    with True show ?thesis
      by (simp only: uint_word_of_int_small if_True)
  next
    case False
    with hi p have "0 \<le> sint v * 2" "sint v * 2 < 2 ^ LENGTH('a)" by auto
    with False show ?thesis
      by (simp only: uint_word_of_int_small if_False)
  qed
qed

lemma zigzag_inj:
  fixes a b :: "'a::len word"
  assumes "(if sint a < 0 then word_of_int ((- sint a) * 2 - 1) :: 'a word
            else word_of_int (sint a * 2)) =
           (if sint b < 0 then word_of_int ((- sint b) * 2 - 1)
            else word_of_int (sint b * 2))"
  shows "a = b"
proof -
  from assms have
    "uint (if sint a < 0 then word_of_int ((- sint a) * 2 - 1) :: 'a word
           else word_of_int (sint a * 2)) =
     uint (if sint b < 0 then word_of_int ((- sint b) * 2 - 1) :: 'a word
           else word_of_int (sint b * 2))"
    by (rule arg_cong)
  then have "(if sint a < 0 then (- sint a) * 2 - 1 else sint a * 2) =
             (if sint b < 0 then (- sint b) * 2 - 1 else sint b * 2)"
    by (simp only: uint_zigzag)
  then have "sint a = sint b"
    by (auto split: if_splits) presburger+
  then show "a = b" by (rule signed_word_eqI)
qed

lemma inj_map_to_pos_alg_8: "inj map_to_pos_alg_8"
proof (rule injI)
  fix a b
  assume "map_to_pos_alg_8 a = map_to_pos_alg_8 b"
  then show "a = b"
    unfolding map_to_pos_alg_8_def by (rule zigzag_inj)
qed

lemma inj_map_to_pos_alg_16: "inj map_to_pos_alg_16"
proof (rule injI)
  fix a b
  assume "map_to_pos_alg_16 a = map_to_pos_alg_16 b"
  then show "a = b"
    unfolding map_to_pos_alg_16_def by (rule zigzag_inj)
qed

lemma inj_map_to_pos_alg_32: "inj map_to_pos_alg_32"
proof (rule injI)
  fix a b
  assume "map_to_pos_alg_32 a = map_to_pos_alg_32 b"
  then show "a = b"
    unfolding map_to_pos_alg_32_def by (rule zigzag_inj)
qed

text \<open>
  Claim C7. For each field width 8, 16 and 32, the mapping
  \<open>u = (s < 0) ? (-s) * 2 - 1 : s * 2\<close>, computed with wrap-around in the width of the
  field, is a bijection on all words of that width (so it has an inverse).
\<close>

theorem map_to_pos_alg_bij:
  "bij map_to_pos_alg_8 \<and> bij map_to_pos_alg_16 \<and> bij map_to_pos_alg_32"
proof -
  have "surj map_to_pos_alg_8"
    by (rule finite_UNIV_inj_surj [OF finite inj_map_to_pos_alg_8])
  moreover have "surj map_to_pos_alg_16"
    by (rule finite_UNIV_inj_surj [OF finite inj_map_to_pos_alg_16])
  moreover have "surj map_to_pos_alg_32"
    by (rule finite_UNIV_inj_surj [OF finite inj_map_to_pos_alg_32])
  ultimately show ?thesis
    by (simp only: bij_def inj_map_to_pos_alg_8 inj_map_to_pos_alg_16 inj_map_to_pos_alg_32
          simp_thms)
qed

section \<open>Differencing\<close>

lemma diff_loop_nth:
  "diff_loop sub n d i = (if 1 \<le> i \<and> i \<le> n then sub (d i) (d (i - 1)) else d i)"
proof (induction n arbitrary: d)
  case 0
  then show ?case by auto
next
  case (Suc n)
  show ?case by (simp add: Suc.IH) (auto simp: le_Suc_eq)
qed

lemma ucast_round_fwd_16:
  "(ucast (round_fwd (ucast (v :: u16)) k) :: u16) = drop_bit (unat k) v"
  unfolding round_fwd_def
  by (rule bit_word_eqI) (auto simp: bit_simps dest: bit_imp_le_length)

text \<open>
  Claim C3. For a buffer \<open>x\<close> of \<open>n \<ge> 1\<close> unsigned values of 16 or 32 bits and a round
  parameter \<open>k\<close>, \<open>diff_16\<close> and \<open>diff_32\<close> succeed and leave \<open>r[0] = x[0] >> k\<close> and,
  for \<open>1 \<le> i < n\<close>, \<open>r[i] = (x[i] >> k) - (x[i-1] >> k)\<close> in the buffer, the subtraction
  being that of the words (modulo \<open>2^16\<close> and \<open>2^32\<close>): every element is reduced by its
  rounded predecessor as it was before the loop.
\<close>

theorem diff_rounded_predecessor:
  assumes "n \<noteq> 0" and "p \<noteq> NULL"
  shows "fst (diff_16 h p n k) = 0 \<and>
         mem16 (snd (diff_16 h p n k)) p 0 = drop_bit (unat k) (mem16 h p 0) \<and>
         (\<forall>i. 1 \<le> i \<and> i < unat n \<longrightarrow>
            mem16 (snd (diff_16 h p n k)) p i =
              drop_bit (unat k) (mem16 h p i) - drop_bit (unat k) (mem16 h p (i - 1))) \<and>
         fst (diff_32 h p n k) = 0 \<and>
         mem32 (snd (diff_32 h p n k)) p 0 = drop_bit (unat k) (mem32 h p 0) \<and>
         (\<forall>i. 1 \<le> i \<and> i < unat n \<longrightarrow>
            mem32 (snd (diff_32 h p n k)) p i =
              drop_bit (unat k) (mem32 h p i) - drop_bit (unat k) (mem32 h p (i - 1)))"
proof -
  from assms(1) have n: "0 < unat n" by (simp add: unat_gt_0)
  have a: "diff_16 h p n k = (0, h\<lparr>mem16 := (mem16 h)(p :=
              diff_loop (\<lambda>a b. a - b) (unat n - 1) (lossy_rounding_16 (mem16 h p) n k))\<rparr>)"
    using assms by (simp add: diff_16_def Let_def)
  have b: "diff_32 h p n k = (0, h\<lparr>mem32 := (mem32 h)(p :=
              diff_loop (\<lambda>a b. a - b) (unat n - 1) (lossy_rounding_32 (mem32 h p) n k))\<rparr>)"
    using assms by (simp add: diff_32_def Let_def)
  have r16: "\<And>i. i < unat n \<Longrightarrow>
      lossy_rounding_16 (mem16 h p) n k i = drop_bit (unat k) (mem16 h p i)"
    by (simp add: lossy_rounding_16_def ucast_round_fwd_16)
  have r32: "\<And>i. i < unat n \<Longrightarrow>
      lossy_rounding_32 (mem32 h p) n k i = drop_bit (unat k) (mem32 h p i)"
    by (simp add: lossy_rounding_32_def round_fwd_def)
  show ?thesis
    unfolding a b using n by (simp add: diff_loop_nth r16 r32)
qed

theorem diff_rounded_predecessor_witness:
  "fst (diff_16 heap_diff_example 1 4 1) = 0 \<and>
   mem16 (snd (diff_16 heap_diff_example 1 4 1)) 1 0 = 5 \<and>
   mem16 (snd (diff_16 heap_diff_example 1 4 1)) 1 1 = 1 \<and>
   mem16 (snd (diff_16 heap_diff_example 1 4 1)) 1 2 = 0xFFFE \<and>
   mem32 (snd (diff_32 heap_diff_example 1 4 1)) 1 2 = 0xFFFFFFFE \<and>
   mem32 (snd (diff_32 heap_diff_example 1 4 1)) 1 3 = 0"
proof -
  have n: "(4 :: u32) \<noteq> 0" by simp
  have p: "(1 :: addr) \<noteq> NULL" by (simp add: NULL_def)
  have x16: "mem16 heap_diff_example (Suc 0) = list_buf [10, 12, 9, 9] 0"
    by (simp add: heap_diff_example_def)
  have x32: "mem32 heap_diff_example (Suc 0) = list_buf [10, 12, 9, 9] 0"
    by (simp add: heap_diff_example_def)
  show ?thesis
    using diff_rounded_predecessor [OF n p, of heap_diff_example 1]
    by (simp add: x16 x32 list_buf_def drop_bit_eq_div)
qed

section \<open>Results of the bit packer\<close>

lemma unat_capacity:
  assumes "unat dest_len + 1 < 2 ^ 28"
  shows "unat (((dest_len + 1) div 2) * 2 * 16) = capacity_bits dest_len"
proof -
  define x where "x = (dest_len + 1) div 2"
  have a: "unat (dest_len + 1) = unat dest_len + 1"
    using assms by (simp add: unat_add_lem [THEN iffD1])
  have ux: "unat x = (unat dest_len + 1) div 2"
    unfolding x_def by (simp only: unat_div a) simp
  have e: "(dest_len + 1) div 2 * 2 * 16 = 32 * x"
    unfolding x_def by simp
  have "unat (32 :: u32) * unat x < 2 ^ LENGTH(32)"
    using assms ux by simp
  then have "unat (32 * x) = unat (32 :: u32) * unat x"
    by (simp only: unat_mult_lem [THEN iffD1])
  then show ?thesis
    unfolding capacity_bits_def e by (simp add: ux)
qed

lemma no_room_iff:
  assumes "unat bitOffset + unat nBits < 2 ^ 32" and "unat dest_len + 1 < 2 ^ 28"
  shows "(bitOffset + nBits > ((dest_len + 1) div 2) * 2 * 16) =
         (capacity_bits dest_len < unat bitOffset + unat nBits)"
proof -
  have "unat (bitOffset + nBits) = unat bitOffset + unat nBits"
    using assms(1) by (simp add: unat_add_lem [THEN iffD1])
  then show ?thesis
    by (simp only: word_less_nat_alt unat_capacity [OF assms(2)])
qed

lemma put_n_bits32_no_room:
  "bitOffset + nBits > ((dest_len + 1) div 2) * 2 * 16 \<Longrightarrow>
   put_n_bits32 val bitOffset nBits destAddr dest_len = (- 2, destAddr)"
  by (simp only: put_n_bits32_def if_True)

lemma put_n_bits32_no_op:
  "\<not> bitOffset + nBits > ((dest_len + 1) div 2) * 2 * 16 \<Longrightarrow> nBits = 0 \<or> nBits > 32 \<Longrightarrow>
   put_n_bits32 val bitOffset nBits destAddr dest_len = (0, destAddr)"
  unfolding put_n_bits32_def by auto

lemma put_n_bits32_written:
  "\<not> bitOffset + nBits > ((dest_len + 1) div 2) * 2 * 16 \<Longrightarrow> nBits \<noteq> 0 \<Longrightarrow>
   \<not> nBits > 32 \<Longrightarrow>
   fst (put_n_bits32 val bitOffset nBits destAddr dest_len) = nBits"
  by (simp only: put_n_bits32_def if_False Let_def fst_conv if_distrib [of fst] if_cancel)

text \<open>
  Claim C6, amended. \<open>put_n_bits32\<close> tests the capacity first. For a bit offset and a
  length whose sum fits 32 bits and a buffer of fewer than \<open>2^28 - 1\<close> 16-bit words:
  the result is the small-buffer value \<open>-2\<close> (as an unsigned number) exactly when
  \<open>bitOffset + nBits\<close> exceeds the capacity \<open>\<lceil>dest_len / 2\<rceil> * 2 * 16\<close>, and nothing is
  written then, whatever the length; within the capacity, the result is 0 and nothing
  is written when the length is 0 or above 32, and the result is the length otherwise.
\<close>

theorem put_n_bits32_results:
  assumes "unat bitOffset + unat nBits < 2 ^ 32" and "unat dest_len + 1 < 2 ^ 28"
  shows "(fst (put_n_bits32 val bitOffset nBits destAddr dest_len) = - 2) =
           (capacity_bits dest_len < unat bitOffset + unat nBits) \<and>
         (capacity_bits dest_len < unat bitOffset + unat nBits \<longrightarrow>
            snd (put_n_bits32 val bitOffset nBits destAddr dest_len) = destAddr) \<and>
         (unat bitOffset + unat nBits \<le> capacity_bits dest_len \<and>
          (nBits = 0 \<or> 32 < nBits) \<longrightarrow>
            put_n_bits32 val bitOffset nBits destAddr dest_len = (0, destAddr)) \<and>
         (unat bitOffset + unat nBits \<le> capacity_bits dest_len \<and>
          nBits \<noteq> 0 \<and> nBits \<le> 32 \<longrightarrow>
            fst (put_n_bits32 val bitOffset nBits destAddr dest_len) = nBits)"
proof (cases "bitOffset + nBits > ((dest_len + 1) div 2) * 2 * 16")
  case True
  then have "capacity_bits dest_len < unat bitOffset + unat nBits"
    by (simp only: no_room_iff [OF assms])
  then show ?thesis
    by (simp add: put_n_bits32_no_room [OF True])
next
  case False
  then have le: "unat bitOffset + unat nBits \<le> capacity_bits dest_len"
    by (simp only: no_room_iff [OF assms] not_less)
  have s: "nBits \<le> 32 \<Longrightarrow> nBits \<noteq> - 2"
    by (auto simp: word_le_nat_alt)
  show ?thesis
  proof (cases "nBits = 0 \<or> nBits > 32")
    case True
    show ?thesis using le True
      by (auto simp: put_n_bits32_no_op [OF False True])
  next
    case f: False
    then have n: "nBits \<noteq> 0" "\<not> nBits > 32" by auto
    from n have n32: "nBits \<le> 32" by (simp add: not_less)
    show ?thesis using le n s [OF n32]
      by (auto simp: put_n_bits32_written [OF False n])
  qed
qed

theorem put_n_bits32_results_witness:
  "capacity_bits 2 = 32 \<and>
   fst (put_n_bits32 5 0 3 (\<lambda>i. 0) 2) = 3 \<and>
   fst (put_n_bits32 5 30 3 (\<lambda>i. 0) 2) = - 2 \<and>
   put_n_bits32 5 8 0 (\<lambda>i. 0) 2 = (0, \<lambda>i. 0)"
proof -
  have c: "capacity_bits 2 = 32"
    by (simp add: capacity_bits_def)
  have h: "unat (2 :: u32) + 1 < 2 ^ 28" by simp
  have a: "unat (0 :: u32) + unat (3 :: u32) < 2 ^ 32" by simp
  have b: "unat (30 :: u32) + unat (3 :: u32) < 2 ^ 32" by simp
  have d: "unat (8 :: u32) + unat (0 :: u32) < 2 ^ 32" by simp
  show ?thesis
    using put_n_bits32_results [OF a h, of 5 "\<lambda>i. 0"]
          put_n_bits32_results [OF b h, of 5 "\<lambda>i. 0"]
          put_n_bits32_results [OF d h, of 5 "\<lambda>i. 0"]
    by (simp add: c)
qed

text \<open>
  The claim as stated fails: with no room left the result is \<open>-2\<close> also for a length
  of 0 or above 32, and the sum \<open>bitOffset + nBits\<close> is taken modulo \<open>2^32\<close>.
\<close>

theorem put_n_bits32_capacity_first:
  "fst (put_n_bits32 0 64 0 (\<lambda>i. 0) 2) = - 2 \<and>
   fst (put_n_bits32 0 64 33 (\<lambda>i. 0) 2) = - 2 \<and>
   fst (put_n_bits32 0 0xFFFFFFFF 1 (\<lambda>i. 0) 2) = 1"
  by (simp add: put_n_bits32_def Let_def)

section \<open>Golomb code words\<close>

lemma unat_of_nat_u32: "n < 2 ^ 32 \<Longrightarrow> unat (of_nat n :: u32) = n"
  by (simp add: unat_of_nat)

lemma unat_push_bit_1:
  assumes "n < 32"
  shows "unat (push_bit n (1 :: u32)) = 2 ^ n"
proof -
  have "push_bit n (1 :: u32) = of_nat (2 ^ n)"
    by (simp add: push_bit_eq_mult)
  moreover have "(2 :: nat) ^ n < 2 ^ 32"
    by (rule power_strict_increasing) (use assms in simp_all)
  ultimately show ?thesis by (simp only: unat_of_nat_u32)
qed

lemma Golomb_nat:
  fixes val m log2_m :: u32
  defines "U \<equiv> unat val" and "M \<equiv> unat m" and "L \<equiv> unat log2_m"
  defines "c \<equiv> 2 ^ (L + 1) - M"
  defines "g \<equiv> (U - c) div M"
  assumes M0: "0 < M" and MltL: "M < 2 ^ (L + 1)" and L31: "L < 31"
  shows "U < c \<Longrightarrow> Golomb_encoder val m log2_m = (log2_m + 1, val)"
    and "c \<le> U \<Longrightarrow> g + L + 2 \<le> 32 \<Longrightarrow>
         unat (fst (Golomb_encoder val m log2_m)) = g + L + 2 \<and>
         unat (snd (Golomb_encoder val m log2_m)) =
           (2 ^ g - 1) * 2 ^ (L + 2) + (c * 2 + (U - c) - g * M) \<and>
         c * 2 + (U - c) - g * M < 2 ^ (L + 2)"
proof -
  have L1: "unat (log2_m + 1) = L + 1"
  proof -
    have "log2_m + 1 = of_nat (L + 1)" by (simp add: L_def)
    moreover have "L + 1 < 2 ^ 32" using L31 by simp
    ultimately show ?thesis by (simp only: unat_of_nat_u32)
  qed
  have L2: "unat (log2_m + 1 + 1) = L + 2"
  proof -
    have "log2_m + 1 + 1 = of_nat (L + 2)" by (simp add: L_def)
    moreover have "L + 2 < 2 ^ 32" using L31 by simp
    ultimately show ?thesis by (simp only: unat_of_nat_u32)
  qed
  have p: "unat (push_bit (L + 1) (1 :: u32)) = 2 ^ (L + 1)"
    by (rule unat_push_bit_1) (use L31 in simp)
  have mle: "m \<le> push_bit (L + 1) 1"
    using MltL by (simp only: word_le_nat_alt p M_def [symmetric])
  have cut: "unat (push_bit (L + 1) 1 - m) = c"
    using mle by (simp only: unat_sub p c_def M_def)
  have c0: "0 < c" using MltL by (simp add: c_def)
  then have cutne: "push_bit (L + 1) 1 - m \<noteq> 0"
    using cut by (metis unat_0 less_numeral_extra(3))
  define cutoff where "cutoff = push_bit (L + 1) (1 :: u32) - m"
  have ucut: "unat cutoff = c" by (simp only: cutoff_def cut)
  have G: "Golomb_encoder val m log2_m =
     (if val < cutoff then (log2_m + 1, val)
      else (log2_m + 1 + (val - cutoff) div m + 1,
            push_bit (L + 2) (push_bit (unat ((val - cutoff) div m)) 1 - 1)
              + push_bit 1 cutoff + (val - cutoff) - (val - cutoff) div m * m))"
    unfolding cutoff_def by (simp only: Golomb_encoder_def Let_def L1 L2 cutne if_False)
  show "U < c \<Longrightarrow> Golomb_encoder val m log2_m = (log2_m + 1, val)"
    by (simp only: G word_less_nat_alt ucut U_def [symmetric] if_True)
  assume cU: "c \<le> U" and fit: "g + L + 2 \<le> 32"
  have nlt: "\<not> val < cutoff" using cU by (simp add: word_less_nat_alt ucut U_def)
  have cle: "cutoff \<le> val" using nlt by simp
  have uvc: "unat (val - cutoff) = U - c"
    using cle by (simp only: unat_sub ucut U_def)
  have ug: "unat ((val - cutoff) div m) = g"
    by (simp only: unat_div uvc g_def M_def)
  have gM: "g * M \<le> U - c" unfolding g_def by simp
  have r: "(U - c) - g * M < M"
    unfolding g_def using M0 by (metis mod_less_divisor minus_div_mult_eq_mod)
  have cpow: "c + M = 2 ^ (L + 1)" using MltL by (simp add: c_def)
  have suffix: "c * 2 + (U - c) - g * M < 2 ^ (L + 2)"
    using r gM cpow c0 M0 by (simp add: algebra_simps)
  have g30: "g < 32" using fit by simp
  have pg: "unat (push_bit g (1 :: u32)) = 2 ^ g" using g30 by (rule unat_push_bit_1)
  have big: "(2 ^ g - 1) * 2 ^ (L + 2) + (c * 2 + (U - c) - g * M) < (2 :: nat) ^ 32"
  proof -
    have "(2 ^ g - 1) * 2 ^ (L + 2) + (c * 2 + (U - c) - g * M) < (2 ^ g - 1) * 2 ^ (L + 2) + 2 ^ (L + 2)"
      using suffix by simp
    also have "\<dots> = 2 ^ g * 2 ^ (L + 2)"
      by (simp add: algebra_simps)
    also have "\<dots> = 2 ^ (g + L + 2)" by (simp add: power_add)
    also have "\<dots> \<le> 2 ^ 32" by (rule power_increasing) (use fit in simp_all)
    finally show ?thesis .
  qed
  have e_cut: "cutoff = of_nat c" unfolding ucut [symmetric] by simp
  have e_val: "val = of_nat U" by (simp add: U_def)
  have e_m: "m = of_nat M" by (simp add: M_def)
  have e_g: "(val - cutoff) div m = of_nat g" unfolding ug [symmetric] by simp
  have e_q: "push_bit g (1 :: u32) - 1 = of_nat (2 ^ g - 1)"
    by (simp add: push_bit_eq_mult)
  have cw: "push_bit (L + 2) (push_bit g (1 :: u32) - 1) + push_bit 1 cutoff + (val - cutoff)
              - (val - cutoff) div m * m
            = of_nat ((2 ^ g - 1) * 2 ^ (L + 2) + (c * 2 + (U - c) - g * M))"
  proof -
    have eq: "c * 2 + (U - c) - g * M = c * 2 + ((U - c) - g * M)" using gM by simp
    have d1: "(of_nat ((U - c) - g * M) :: u32) = of_nat (U - c) - of_nat (g * M)"
      using gM by (rule of_nat_diff)
    have "(of_nat ((2 ^ g - 1) * 2 ^ (L + 2) + (c * 2 + (U - c) - g * M)) :: u32)
          = of_nat (2 ^ g - 1) * 2 ^ (L + 2) + (of_nat c * 2 + (of_nat (U - c) - of_nat g * of_nat M))"
      unfolding eq by (simp only: of_nat_add of_nat_mult d1 of_nat_power of_nat_numeral)
    moreover have "(of_nat (U - c) :: u32) = val - cutoff"
      using cU by (simp add: e_val e_cut of_nat_diff)
    ultimately show ?thesis
      by (simp add: e_q e_g e_m [symmetric] e_cut [symmetric] push_bit_eq_mult algebra_simps)
  qed
  have ulen: "unat (log2_m + 1 + (val - cutoff) div m + 1) = g + L + 2"
  proof -
    have "log2_m + 1 + (val - cutoff) div m + 1 = of_nat (g + L + 2)"
      by (simp add: e_g L_def)
    moreover have "g + L + 2 < 2 ^ 32" using fit by simp
    ultimately show ?thesis by (simp only: unat_of_nat_u32)
  qed
  show "unat (fst (Golomb_encoder val m log2_m)) = g + L + 2 \<and>
         unat (snd (Golomb_encoder val m log2_m)) =
           (2 ^ g - 1) * 2 ^ (L + 2) + (c * 2 + (U - c) - g * M) \<and>
         c * 2 + (U - c) - g * M < 2 ^ (L + 2)"
    using suffix big
    by (simp only: G nlt if_False fst_conv snd_conv ug cw ulen unat_of_nat_u32 simp_thms)
qed


text \<open>
  Claim C5, amended. The cutoff of the Golomb encoder is \<open>c = 2^(log2_m + 1) - m\<close>, where
  \<open>log2_m\<close> is the logarithm the caller passes (\<open>ilog_2 (golomb_par)\<close>); for a divisor \<open>m\<close>
  that is not a power of two and \<open>log2_m = \<lfloor>log2 m\<rfloor>\<close> this is \<open>2^\<lceil>log2 m\<rceil> - m\<close>, and it is
  never 0. For \<open>0 < m < 2^(log2_m + 1)\<close> and \<open>log2_m < 31\<close>: a value \<open>u < c\<close> has the code
  word \<open>u\<close> of \<open>log2_m + 1\<close> bits; a value \<open>u \<ge> c\<close> of group \<open>g = (u - c) / m\<close>, when the
  code word fits 32 bits, has the length \<open>g + log2_m + 2\<close> and the code word of \<open>g\<close> ones
  followed by the \<open>log2_m + 2\<close> bits of \<open>c * 2 + (u - c) - g * m\<close>.
\<close>

theorem Golomb_encoder_codeword:
  fixes val m log2_m :: u32
  assumes "0 < unat m" and "unat m < 2 ^ (unat log2_m + 1)" and "unat log2_m < 31"
  shows "(unat val < Golomb_cutoff m log2_m \<longrightarrow>
            Golomb_encoder val m log2_m = (log2_m + 1, val)) \<and>
         (Golomb_cutoff m log2_m \<le> unat val \<and>
          Golomb_group val m log2_m + unat log2_m + 2 \<le> 32 \<longrightarrow>
            unat (fst (Golomb_encoder val m log2_m)) =
              Golomb_group val m log2_m + unat log2_m + 2 \<and>
            unat (snd (Golomb_encoder val m log2_m)) =
              (2 ^ Golomb_group val m log2_m - 1) * 2 ^ (unat log2_m + 2) +
              (Golomb_cutoff m log2_m * 2 + (unat val - Golomb_cutoff m log2_m)
                 - Golomb_group val m log2_m * unat m) \<and>
            Golomb_cutoff m log2_m * 2 + (unat val - Golomb_cutoff m log2_m)
              - Golomb_group val m log2_m * unat m < 2 ^ (unat log2_m + 2))"
  using Golomb_nat [OF assms, of val]
  unfolding Golomb_cutoff_def Golomb_group_def by blast

theorem Golomb_encoder_codeword_witness:
  "Golomb_cutoff 3 1 = 1 \<and>
   Golomb_encoder 0 3 1 = (2, 0) \<and>
   unat (fst (Golomb_encoder 1 3 1)) = 3 \<and> unat (snd (Golomb_encoder 1 3 1)) = 2 \<and>
   unat (fst (Golomb_encoder 4 3 1)) = 4 \<and> unat (snd (Golomb_encoder 4 3 1)) = 10"
proof -
  have a: "0 < unat (3 :: u32)" by simp
  have b: "unat (3 :: u32) < 2 ^ (unat (1 :: u32) + 1)" by simp
  have c: "unat (1 :: u32) < 31" by simp
  have d: "Golomb_cutoff 3 1 = 1" by (simp add: Golomb_cutoff_def)
  have g: "Golomb_group 0 3 1 = 0" "Golomb_group 1 3 1 = 0" "Golomb_group 4 3 1 = 1"
    by (simp_all add: Golomb_group_def d)
  show ?thesis
    using Golomb_encoder_codeword [OF a b c, of 0]
          Golomb_encoder_codeword [OF a b c, of 1]
          Golomb_encoder_codeword [OF a b c, of 4]
    by (simp add: d g)
qed

text \<open>
  The claim as stated fails for the divisor 3 with its integer logarithm 1: the claimed
  cutoff is \<open>2^(\<lceil>log2 3\<rceil> + 1) - 3 = 5\<close>, so the value 1 would be emitted as itself in 2
  bits; the encoder has the cutoff 1 and emits the 3 bits \<open>010\<close>.
\<close>

theorem Golomb_encoder_cutoff_counterexample:
  "claimed_Golomb_cutoff 3 = 5 \<and>
   claimed_Golomb_codeword 1 3 1 = (2, 1) \<and>
   Golomb_encoder 1 3 1 = (3, 2) \<and>
   (unat (fst (Golomb_encoder 1 3 1)), unat (snd (Golomb_encoder 1 3 1))) \<noteq>
     claimed_Golomb_codeword 1 3 1"
proof -
  have l: "ceil_log2 3 = 2"
    by (simp add: ceil_log2_def eval_nat_numeral)
  have c: "claimed_Golomb_cutoff 3 = 5"
    by (simp add: claimed_Golomb_cutoff_def l)
  have w: "claimed_Golomb_codeword 1 3 1 = (2, 1)"
    by (simp add: claimed_Golomb_codeword_def c)
  have e: "Golomb_encoder 1 3 1 = (3, 2)"
    by (simp add: Golomb_encoder_def Let_def)
  show ?thesis unfolding c w e by simp
qed

section \<open>Escape policy of the multi escape mechanism\<close>

lemma multi_not_zero:
  "multi_escape_mech_is_used m \<Longrightarrow> \<not> zero_escape_mech_is_used m"
  by (cases m) (simp_all add: multi_escape_mech_is_used_def zero_escape_mech_is_used_def)

lemma cal_multi_offset_table:
  "unat d < 4 ^ (nat (cal_multi_offset d) + 1) \<and>
   (cal_multi_offset d = 0 \<or> 4 ^ nat (cal_multi_offset d) \<le> unat d)"
proof -
  have "unat d < 2 ^ 32" using unsigned_less [of d] by simp
  then show ?thesis
    by (simp add: cal_multi_offset_def word_le_nat_alt not_le)
qed

text \<open>
  The paths of \<open>encode_value\<close> in a multi escape mode: a value below the spillover
  threshold is passed to \<open>encode_normal\<close>, any other value to \<open>encode_outlier_multi\<close>,
  whose offset is that of the step table; when both writes of the outlier path find
  room, the bit cursor moves on by both lengths.
\<close>

lemma encode_outlier_multi_in_room:
  fixes v :: u32 and cfg :: cmp_cfg and enc :: encoder_struct and h :: heap
  defines "d \<equiv> v - spill cfg"
  defines "esc \<equiv> spill cfg + word_of_int (cal_multi_offset d)"
  defines "cw \<equiv> call_encoder (the (encoder enc)) esc (golomb_par cfg) (log2_golomb_par enc)"
  defines "w1 \<equiv> put_bits (snd cw) (enc_cmp_size enc) (fst cw) cfg h"
  defines "w2 \<equiv> put_bits d (enc_cmp_size enc + fst cw) (unencoded_data_len d) cfg (snd w1)"
  assumes multi: "multi_escape_mech_is_used (cmp_mode cfg)"
  shows "(v < spill cfg \<longrightarrow> encode_value v bit_len cfg enc h = encode_normal v cfg enc h) \<and>
         (spill cfg \<le> v \<longrightarrow>
            encode_value v bit_len cfg enc h = encode_outlier_multi v cfg enc h \<and>
            unencoded_data_len d = word_of_int ((cal_multi_offset d + 1) * 2) \<and>
            0 \<le> cal_multi_offset d \<and> cal_multi_offset d \<le> 15 \<and>
            unat d < 4 ^ (nat (cal_multi_offset d) + 1) \<and>
            (cal_multi_offset d = 0 \<or> 4 ^ nat (cal_multi_offset d) \<le> unat d)) \<and>
         (spill cfg \<le> v \<and> encoder enc \<noteq> None \<and> 0 < fst w1 \<and> 0 < fst w2 \<longrightarrow>
            encode_value v bit_len cfg enc h =
              (0, enc\<lparr>enc_cmp_size := enc_cmp_size enc + fst cw + unencoded_data_len d\<rparr>,
               snd w2))"
proof -
  note nz = multi_not_zero [OF multi]
  have a: "v < spill cfg \<Longrightarrow> encode_value v bit_len cfg enc h = encode_normal v cfg enc h"
    using nz by (simp add: encode_value_def not_le [symmetric])
  have b: "spill cfg \<le> v \<Longrightarrow>
             encode_value v bit_len cfg enc h = encode_outlier_multi v cfg enc h"
    using multi by (simp add: encode_value_def encode_outlier_def)
  have r: "0 \<le> cal_multi_offset d \<and> cal_multi_offset d \<le> 15"
    by (simp add: cal_multi_offset_def)
  have c: "encoder enc \<noteq> None \<Longrightarrow> 0 < fst w1 \<Longrightarrow> 0 < fst w2 \<Longrightarrow>
           encode_outlier_multi v cfg enc h =
             (0, enc\<lparr>enc_cmp_size := enc_cmp_size enc + fst cw + unencoded_data_len d\<rparr>,
               snd w2)"
  proof -
    assume e: "encoder enc \<noteq> None" and p1: "0 < fst w1" and p2: "0 < fst w2"
    from e obtain f where f: "encoder enc = Some f" by auto
    have n: "encode_normal esc cfg enc h = (0, enc\<lparr>enc_cmp_size := enc_cmp_size enc + fst cw\<rparr>, snd w1)"
      using p1 unfolding encode_normal_def w1_def cw_def f
      by (simp add: split_beta Let_def not_le [symmetric])
    show ?thesis
      using p2 unfolding encode_outlier_multi_def d_def [symmetric]
      by (simp add: n [unfolded esc_def] Let_def split_beta w2_def not_le [symmetric] add.assoc)
  qed
  show ?thesis
    using a b c r cal_multi_offset_table [of d]
    by (simp add: unencoded_data_len_def)
qed

text \<open>
  Claim C4. With Golomb parameter 4 and spillover threshold 8 the mapped value 9 takes
  the outlier path of the multi escape mechanism (\<open>d = 1\<close>, offset 0). With the bit
  cursor at 0 the stream receives the code word of the escape symbol 8 (\<open>11000\<close>)
  followed by \<open>d\<close> in two bits (\<open>01\<close>): the first word is \<open>0xC2000000\<close>, the cursor 7.
  With the cursor at 28 of a buffer of 32 bits the escape symbol finds no room;
  \<open>encode_outlier_multi\<close> drops the refusal of \<open>encode_normal\<close>, writes the two
  unencoded bits alone and returns 0: the first word is \<open>0x4\<close>, the cursor 30, and the
  stream holds no escape symbol. A normal code word that finds no room (the value 5 at
  cursor 30) is refused with -2.
\<close>

theorem encode_value_multi_escape_dropped:
  "multi_escape_mech_is_used (cmp_mode cfg_example) \<and>
   Rice_encoder 8 4 2 = (5, 0x18) \<and>
   fst (encode_value 9 16 cfg_example enc_example zero_heap) = 0 \<and>
   enc_cmp_size (fst (snd (encode_value 9 16 cfg_example enc_example zero_heap))) = 7 \<and>
   mem32 (snd (snd (encode_value 9 16 cfg_example enc_example zero_heap))) 3 0 = 0xC2000000 \<and>
   capacity_bits (buffer_length cfg_example) = 32 \<and>
   fst (encode_value 9 16 cfg_example (enc_example\<lparr>enc_cmp_size := 28\<rparr>) zero_heap) = 0 \<and>
   enc_cmp_size (fst (snd (encode_value 9 16 cfg_example
                             (enc_example\<lparr>enc_cmp_size := 28\<rparr>) zero_heap))) = 30 \<and>
   mem32 (snd (snd (encode_value 9 16 cfg_example
                      (enc_example\<lparr>enc_cmp_size := 28\<rparr>) zero_heap))) 3 0 = 0x4 \<and>
   mem32 (snd (snd (encode_value 9 16 cfg_example
                      (enc_example\<lparr>enc_cmp_size := 28\<rparr>) zero_heap))) 3 1 = 0 \<and>
   fst (encode_value 5 16 cfg_example (enc_example\<lparr>enc_cmp_size := 30\<rparr>) zero_heap) = - 2"
  by code_simp

section \<open>Model pre-processing and the updated-model buffer\<close>

lemma model_32_step_frame:
  "a \<noteq> d \<Longrightarrow> a \<noteq> m \<Longrightarrow>
   model_32_step env d m mv k i (h\<lparr>mem32 := (mem32 h)(a := x)\<rparr>) =
   (model_32_step env d m mv k i h)
     \<lparr>mem32 := (mem32 (model_32_step env d m mv k i h))(a := x)\<rparr>"
  by (simp add: model_32_step_def wr32_def Let_def fun_upd_twist)

lemma model_32_loop_frame:
  "a \<noteq> d \<Longrightarrow> a \<noteq> m \<Longrightarrow>
   model_32_loop env d m mv k n i (h\<lparr>mem32 := (mem32 h)(a := x)\<rparr>) =
   (model_32_loop env d m mv k n i h)
     \<lparr>mem32 := (mem32 (model_32_loop env d m mv k n i h))(a := x)\<rparr>"
proof (induction n arbitrary: i h)
  case 0
  then show ?case by simp
next
  case (Suc n)
  show ?case
    by (simp only: model_32_loop.simps model_32_step_frame [OF Suc.prems] Suc.IH [OF Suc.prems])
qed

lemma model_32_loop_values:
  assumes "d \<noteq> m"
  shows "mem32 (model_32_loop env d m mv k n i h) d j =
           (if i \<le> j \<and> j < i + n
            then round_fwd (mem32 h d j) k - round_fwd (mem32 h m j) k
            else mem32 h d j) \<and>
         mem32 (model_32_loop env d m mv k n i h) m j =
           (if i \<le> j \<and> j < i + n
            then cal_up_model env (round_inv (round_fwd (mem32 h d j) k) k) (mem32 h m j) mv
            else mem32 h m j)"
proof (induction n arbitrary: i h)
  case 0
  then show ?case by auto
next
  case (Suc n)
  show ?case
    using assms by (auto simp: Suc.IH model_32_step_def wr32_def Let_def)
qed


lemma model_16_loop_values:
  assumes "d \<noteq> m" and "d \<noteq> u" and "m \<noteq> u"
  shows "mem16 (model_16_loop env d m u mv k n i h) m j = mem16 h m j \<and>
         mem16 (model_16_loop env d m u mv k n i h) d j =
           (if i \<le> j \<and> j < i + n
            then ucast (round_fwd (ucast (mem16 h d j)) k) - ucast (round_fwd (ucast (mem16 h m j)) k)
            else mem16 h d j) \<and>
         mem16 (model_16_loop env d m u mv k n i h) u j =
           (if i \<le> j \<and> j < i + n
            then ucast (cal_up_model env
                   (round_inv (ucast (ucast (round_fwd (ucast (mem16 h d j)) k) :: u16)) k)
                   (ucast (mem16 h m j)) mv)
            else mem16 h u j)"
proof (induction n arbitrary: i h)
  case 0
  then show ?case by auto
next
  case (Suc n)
  show ?case
    using assms by (auto simp: Suc.IH model_16_step_def wr16_def Let_def)
qed

lemma model_S_FX_step_model:
  "m \<noteq> d \<Longrightarrow> m \<noteq> u \<Longrightarrow>
   memS_FX (snd (model_S_FX_step env d m u mv k i h)) m = memS_FX h m"
  by (simp add: model_S_FX_step_def wrS_FX_def Let_def split_beta)

lemma model_S_FX_loop_model:
  "m \<noteq> d \<Longrightarrow> m \<noteq> u \<Longrightarrow>
   memS_FX (snd (model_S_FX_loop env d m u mv k n i h)) m = memS_FX h m"
proof (induction n arbitrary: i h)
  case 0
  then show ?case by simp
next
  case (Suc n)
  then show ?case
    by (simp add: split_beta Let_def model_S_FX_step_model)
qed

lemma model_S_FX_loop_values:
  assumes "d \<noteq> m" and "d \<noteq> u" and "m \<noteq> u"
    and "fst (model_S_FX_loop env d m u mv k n i h) = 0"
  shows "memS_FX (snd (model_S_FX_loop env d m u mv k n i h)) d j =
           (if i \<le> j \<and> j < i + n
            then sub_S_FX env (snd (lossy_rounding_S_FX env (\<lambda>_. memS_FX h d j) 1 k) 0)
                   (snd (lossy_rounding_S_FX env (\<lambda>_. memS_FX h m j) 1 k) 0)
            else memS_FX h d j) \<and>
         memS_FX (snd (model_S_FX_loop env d m u mv k n i h)) u j =
           (if i \<le> j \<and> j < i + n
            then cal_up_model_S_FX env
                   (snd (de_lossy_rounding_S_FX env
                      (\<lambda>_. snd (lossy_rounding_S_FX env (\<lambda>_. memS_FX h d j) 1 k) 0) 1 k) 0)
                   (memS_FX h m j) mv
            else memS_FX h u j)"
  using assms(4)
proof (induction n arbitrary: i h)
  case 0
  then show ?case by auto
next
  case (Suc n)
  let ?s = "model_S_FX_step env d m u mv k i h"
  from Suc.prems have s0: "fst ?s = 0"
    by (simp add: split_beta Let_def split: if_splits)
  with Suc.prems have l0: "fst (model_S_FX_loop env d m u mv k n (Suc i) (snd ?s)) = 0"
    by (simp add: split_beta Let_def)
  have e: "model_S_FX_loop env d m u mv k (Suc n) i h =
           model_S_FX_loop env d m u mv k n (Suc i) (snd ?s)"
    using s0 by (simp add: split_beta Let_def)
  have st: "snd ?s =
      wrS_FX (wrS_FX h d i
                (sub_S_FX env (snd (lossy_rounding_S_FX env (\<lambda>_. memS_FX h d i) 1 k) 0)
                   (snd (lossy_rounding_S_FX env (\<lambda>_. memS_FX h m i) 1 k) 0)))
        u i
        (cal_up_model_S_FX env
           (snd (de_lossy_rounding_S_FX env
              (\<lambda>_. snd (lossy_rounding_S_FX env (\<lambda>_. memS_FX h d i) 1 k) 0) 1 k) 0)
           (memS_FX h m i) mv)"
    using s0 assms(1-3)
    by (simp add: model_S_FX_step_def Let_def split_beta wrS_FX_def split: if_splits)
  note ih = Suc.IH [OF l0, THEN conjunct1] Suc.IH [OF l0, THEN conjunct2]
  show ?case
    unfolding e ih using assms(1-3)
    by (auto simp: st wrS_FX_def)
qed


text \<open>
  Claim C9. In the 32-bit model modes \<open>pre_process\<close> does not look at
  \<open>icu_new_model_buf\<close>: its result does not depend on the pointer; it neither reads nor
  writes any block other than the input and the model buffer (a block with other
  contents gives the same result and keeps those contents), so not the block of a
  separate updated-model buffer either; and the updated model is written into
  \<open>model_buf\<close> itself. In the 16-bit and the S_FX model modes a separate updated-model
  buffer receives the updated model and \<open>model_buf\<close> keeps its contents.
\<close>

theorem pre_process_model_32_in_place:
  "(cmp_mode cfg \<in> {MODE_MODEL_ZERO_32, MODE_MODEL_MULTI_32,
                     MODE_MODEL_ZERO_F_FX, MODE_MODEL_MULTI_F_FX} \<longrightarrow>
      pre_process env (cfg\<lparr>icu_new_model_buf := p\<rparr>) h = pre_process env cfg h \<and>
      (a \<noteq> input_buf cfg \<and> a \<noteq> model_buf cfg \<longrightarrow>
         pre_process env cfg (h\<lparr>mem32 := (mem32 h)(a := x)\<rparr>) =
           (fst (pre_process env cfg h),
            (snd (pre_process env cfg h))
              \<lparr>mem32 := (mem32 (snd (pre_process env cfg h)))(a := x)\<rparr>)) \<and>
      (samples cfg \<noteq> 0 \<and> input_buf cfg \<noteq> NULL \<and> model_buf cfg \<noteq> NULL \<and>
       model_value cfg \<le> MAX_MODEL_VALUE \<and> input_buf cfg \<noteq> model_buf cfg \<and>
       i < unat (samples cfg) \<longrightarrow>
         fst (pre_process env cfg h) = 0 \<and>
         mem32 (snd (pre_process env cfg h)) (model_buf cfg) i =
           cal_up_model env
             (round_inv (round_fwd (mem32 h (input_buf cfg) i) (round_par cfg)) (round_par cfg))
             (mem32 h (model_buf cfg) i) (model_value cfg))) \<and>
   (cmp_mode cfg \<in> {MODE_MODEL_ZERO, MODE_MODEL_MULTI} \<and>
    samples cfg \<noteq> 0 \<and> input_buf cfg \<noteq> NULL \<and> model_buf cfg \<noteq> NULL \<and>
    model_value cfg \<le> MAX_MODEL_VALUE \<and> input_buf cfg \<noteq> model_buf cfg \<and>
    icu_new_model_buf cfg \<noteq> NULL \<and> icu_new_model_buf cfg \<noteq> input_buf cfg \<and>
    icu_new_model_buf cfg \<noteq> model_buf cfg \<and> i < unat (samples cfg) \<longrightarrow>
      fst (pre_process env cfg h) = 0 \<and>
      mem16 (snd (pre_process env cfg h)) (model_buf cfg) = mem16 h (model_buf cfg) \<and>
      mem16 (snd (pre_process env cfg h)) (icu_new_model_buf cfg) i =
        ucast (cal_up_model env
          (round_inv
             (ucast (ucast (round_fwd (ucast (mem16 h (input_buf cfg) i)) (round_par cfg)) :: u16))
             (round_par cfg))
          (ucast (mem16 h (model_buf cfg) i)) (model_value cfg))) \<and>
   (cmp_mode cfg \<in> {MODE_MODEL_ZERO_S_FX, MODE_MODEL_MULTI_S_FX} \<and>
    samples cfg \<noteq> 0 \<and> input_buf cfg \<noteq> model_buf cfg \<and>
    icu_new_model_buf cfg \<noteq> NULL \<and> icu_new_model_buf cfg \<noteq> input_buf cfg \<and>
    icu_new_model_buf cfg \<noteq> model_buf cfg \<and> i < unat (samples cfg) \<and>
    fst (pre_process env cfg h) = 0 \<longrightarrow>
      memS_FX (snd (pre_process env cfg h)) (model_buf cfg) = memS_FX h (model_buf cfg) \<and>
      memS_FX (snd (pre_process env cfg h)) (icu_new_model_buf cfg) i =
        cal_up_model_S_FX env
          (snd (de_lossy_rounding_S_FX env
             (\<lambda>_. snd (lossy_rounding_S_FX env (\<lambda>_. memS_FX h (input_buf cfg) i) 1
                          (round_par cfg)) 0) 1 (round_par cfg)) 0)
          (memS_FX h (model_buf cfg) i) (model_value cfg))"
proof -
  have m32: "cmp_mode cfg \<in> {MODE_MODEL_ZERO_32, MODE_MODEL_MULTI_32,
                     MODE_MODEL_ZERO_F_FX, MODE_MODEL_MULTI_F_FX} \<Longrightarrow>
      pre_process env cfg h =
        (if samples cfg = 0 then (0, h)
         else if input_buf cfg = NULL then (- 1, h)
         else model_32 env h (input_buf cfg) (model_buf cfg)
                (samples cfg) (model_value cfg) (round_par cfg))" for cfg h
    by (auto simp: pre_process_def)
  have A: "cmp_mode cfg \<in> {MODE_MODEL_ZERO_32, MODE_MODEL_MULTI_32,
                     MODE_MODEL_ZERO_F_FX, MODE_MODEL_MULTI_F_FX} \<Longrightarrow>
      pre_process env (cfg\<lparr>icu_new_model_buf := p\<rparr>) h = pre_process env cfg h"
    by (simp add: m32)
  have B: "cmp_mode cfg \<in> {MODE_MODEL_ZERO_32, MODE_MODEL_MULTI_32,
                     MODE_MODEL_ZERO_F_FX, MODE_MODEL_MULTI_F_FX} \<Longrightarrow>
      a \<noteq> input_buf cfg \<Longrightarrow> a \<noteq> model_buf cfg \<Longrightarrow>
         pre_process env cfg (h\<lparr>mem32 := (mem32 h)(a := x)\<rparr>) =
           (fst (pre_process env cfg h),
            (snd (pre_process env cfg h))
              \<lparr>mem32 := (mem32 (snd (pre_process env cfg h)))(a := x)\<rparr>)"
    by (simp add: m32 model_32_def model_32_loop_frame)
  have C: "cmp_mode cfg \<in> {MODE_MODEL_ZERO_32, MODE_MODEL_MULTI_32,
                     MODE_MODEL_ZERO_F_FX, MODE_MODEL_MULTI_F_FX} \<Longrightarrow>
       samples cfg \<noteq> 0 \<Longrightarrow> input_buf cfg \<noteq> NULL \<Longrightarrow> model_buf cfg \<noteq> NULL \<Longrightarrow>
       model_value cfg \<le> MAX_MODEL_VALUE \<Longrightarrow> input_buf cfg \<noteq> model_buf cfg \<Longrightarrow>
       i < unat (samples cfg) \<Longrightarrow>
         fst (pre_process env cfg h) = 0 \<and>
         mem32 (snd (pre_process env cfg h)) (model_buf cfg) i =
           cal_up_model env
             (round_inv (round_fwd (mem32 h (input_buf cfg) i) (round_par cfg)) (round_par cfg))
             (mem32 h (model_buf cfg) i) (model_value cfg)"
    by (simp add: m32 model_32_def model_32_loop_values not_less [symmetric])
  have D: "cmp_mode cfg \<in> {MODE_MODEL_ZERO, MODE_MODEL_MULTI} \<Longrightarrow>
    samples cfg \<noteq> 0 \<Longrightarrow> input_buf cfg \<noteq> NULL \<Longrightarrow> model_buf cfg \<noteq> NULL \<Longrightarrow>
    model_value cfg \<le> MAX_MODEL_VALUE \<Longrightarrow> input_buf cfg \<noteq> model_buf cfg \<Longrightarrow>
    icu_new_model_buf cfg \<noteq> NULL \<Longrightarrow> icu_new_model_buf cfg \<noteq> input_buf cfg \<Longrightarrow>
    icu_new_model_buf cfg \<noteq> model_buf cfg \<Longrightarrow> i < unat (samples cfg) \<Longrightarrow>
      fst (pre_process env cfg h) = 0 \<and>
      mem16 (snd (pre_process env cfg h)) (model_buf cfg) = mem16 h (model_buf cfg) \<and>
      mem16 (snd (pre_process env cfg h)) (icu_new_model_buf cfg) i =
        ucast (cal_up_model env
          (round_inv
             (ucast (ucast (round_fwd (ucast (mem16 h (input_buf cfg) i)) (round_par cfg)) :: u16))
             (round_par cfg))
          (ucast (mem16 h (model_buf cfg) i)) (model_value cfg))"
    by (auto simp: pre_process_def model_16_def model_16_loop_values not_less [symmetric]
          fun_eq_iff)
  have E: "cmp_mode cfg \<in> {MODE_MODEL_ZERO_S_FX, MODE_MODEL_MULTI_S_FX} \<Longrightarrow>
    samples cfg \<noteq> 0 \<Longrightarrow> input_buf cfg \<noteq> model_buf cfg \<Longrightarrow>
    icu_new_model_buf cfg \<noteq> NULL \<Longrightarrow> icu_new_model_buf cfg \<noteq> input_buf cfg \<Longrightarrow>
    icu_new_model_buf cfg \<noteq> model_buf cfg \<Longrightarrow> i < unat (samples cfg) \<Longrightarrow>
    fst (pre_process env cfg h) = 0 \<Longrightarrow>
      memS_FX (snd (pre_process env cfg h)) (model_buf cfg) = memS_FX h (model_buf cfg) \<and>
      memS_FX (snd (pre_process env cfg h)) (icu_new_model_buf cfg) i =
        cal_up_model_S_FX env
          (snd (de_lossy_rounding_S_FX env
             (\<lambda>_. snd (lossy_rounding_S_FX env (\<lambda>_. memS_FX h (input_buf cfg) i) 1
                          (round_par cfg)) 0) 1 (round_par cfg)) 0)
          (memS_FX h (model_buf cfg) i) (model_value cfg)"
  proof -
    assume mode: "cmp_mode cfg \<in> {MODE_MODEL_ZERO_S_FX, MODE_MODEL_MULTI_S_FX}"
      and n: "samples cfg \<noteq> 0" and dm: "input_buf cfg \<noteq> model_buf cfg"
      and u0: "icu_new_model_buf cfg \<noteq> NULL" and ud: "icu_new_model_buf cfg \<noteq> input_buf cfg"
      and um: "icu_new_model_buf cfg \<noteq> model_buf cfg" and i: "i < unat (samples cfg)"
      and ok: "fst (pre_process env cfg h) = 0"
    have pp: "pre_process env cfg h =
        (if input_buf cfg = NULL then (- 1, h)
         else model_S_FX env h (input_buf cfg) (model_buf cfg) (icu_new_model_buf cfg)
                (samples cfg) (model_value cfg) (round_par cfg))"
      using mode n by (auto simp: pre_process_def)
    from ok have run: "pre_process env cfg h =
        model_S_FX_loop env (input_buf cfg) (model_buf cfg) (icu_new_model_buf cfg)
          (model_value cfg) (round_par cfg) (unat (samples cfg)) 0 h"
      using n u0 unfolding pp by (simp add: model_S_FX_def split: if_splits)
    show ?thesis
      using ok i dm ud um unfolding run
      by (simp add: model_S_FX_loop_values model_S_FX_loop_model)
  qed
  show ?thesis
    using A B C D E by blast
qed

lemma model_S_FX_loop_example_ok:
  "fst (model_S_FX_loop env_example d m u mv k n i h) = 0"
  by (induction n arbitrary: i h)
     (simp_all add: model_S_FX_step_def env_example_def split_beta Let_def)

lemma cfg_model_example_simps: "cmp_mode (cfg_model_example m) = m" "samples (cfg_model_example m) = 2"
    "input_buf (cfg_model_example m) = 1" "model_buf (cfg_model_example m) = 2"
    "icu_new_model_buf (cfg_model_example m) = 4" "model_value (cfg_model_example m) = 8"
    "round_par (cfg_model_example m) = 1"
    by (simp_all add: cfg_model_example_def cfg_example_def)

lemma heap_model_example_simps: "mem32 heap_model_example (Suc 0) 0 = 100" "mem32 heap_model_example 2 0 = 96" "mem32 heap_model_example 4 = list_buf [7, 7] 0"
    "mem16 heap_model_example (Suc 0) 0 = 100" "mem16 heap_model_example 2 0 = 96" "mem16 heap_model_example 2 = list_buf [96, 60] 0"
    "memS_FX heap_model_example (Suc 0) 0 = \<lparr>EXPOSURE_FLAGS = 3, FX = 100\<rparr>"
    "memS_FX heap_model_example 2 0 = \<lparr>EXPOSURE_FLAGS = 3, FX = 96\<rparr>"
    by (simp_all add: heap_model_example_def list_buf_def)



lemma cal_up_model_example_32: "cal_up_model env_example (round_inv (round_fwd 100 1) 1) 96 8 = 98"
    by (simp add: env_example_def cal_up_model_example_def round_inv_def round_fwd_def
          drop_bit_eq_div push_bit_eq_mult)


lemma cal_up_model_example_16: "ucast (cal_up_model env_example
                (round_inv (ucast (ucast (round_fwd 100 1) :: u16)) 1) 96 8) = (98 :: u16)"
    by (simp add: env_example_def cal_up_model_example_def round_inv_def round_fwd_def
          drop_bit_eq_div push_bit_eq_mult)

lemma cal_up_model_example_S_FX: "cal_up_model_S_FX env_example
          (snd (de_lossy_rounding_S_FX env_example
             (\<lambda>_. snd (lossy_rounding_S_FX env_example
                          (\<lambda>_. \<lparr>EXPOSURE_FLAGS = 3, FX = 100\<rparr>) 1 1) 0) 1 1) 0)
          \<lparr>EXPOSURE_FLAGS = 3, FX = 96\<rparr> 8 = \<lparr>EXPOSURE_FLAGS = 2, FX = 98\<rparr>"
    by (simp add: env_example_def cal_up_model_example_def round_inv_def round_fwd_def
          round_S_FX_example_def drop_bit_eq_div push_bit_eq_mult)

lemma pre_process_example_S_FX_ok: "fst (pre_process env_example (cfg_model_example MODE_MODEL_ZERO_S_FX) heap_model_example) = 0"
    by (simp add: pre_process_def cfg_model_example_simps NULL_def model_S_FX_def MAX_MODEL_VALUE_def
          model_S_FX_loop_example_ok)


theorem pre_process_model_32_in_place_witness:
  "pre_process env_example ((cfg_model_example MODE_MODEL_ZERO_32)\<lparr>icu_new_model_buf := 9\<rparr>)
     heap_model_example =
   pre_process env_example (cfg_model_example MODE_MODEL_ZERO_32) heap_model_example \<and>
   pre_process env_example (cfg_model_example MODE_MODEL_ZERO_32)
     (heap_model_example\<lparr>mem32 := (mem32 heap_model_example)(4 := list_buf [1, 2] 0)\<rparr>) =
     (fst (pre_process env_example (cfg_model_example MODE_MODEL_ZERO_32) heap_model_example),
      (snd (pre_process env_example (cfg_model_example MODE_MODEL_ZERO_32) heap_model_example))
        \<lparr>mem32 :=
           (mem32 (snd (pre_process env_example (cfg_model_example MODE_MODEL_ZERO_32)
                          heap_model_example)))
           (4 := list_buf [1, 2] 0)\<rparr>) \<and>
   mem32 (snd (pre_process env_example (cfg_model_example MODE_MODEL_ZERO_32)
                 heap_model_example)) 2 0 = 98 \<and>
   mem16 (snd (pre_process env_example (cfg_model_example MODE_MODEL_ZERO)
                 heap_model_example)) 2 = list_buf [96, 60] 0 \<and>
   mem16 (snd (pre_process env_example (cfg_model_example MODE_MODEL_ZERO)
                 heap_model_example)) 4 0 = 98 \<and>
   memS_FX (snd (pre_process env_example (cfg_model_example MODE_MODEL_ZERO_S_FX)
                   heap_model_example)) 4 0 = \<lparr>EXPOSURE_FLAGS = 2, FX = 98\<rparr>"
proof -
  let ?c32 = "cfg_model_example MODE_MODEL_ZERO_32"
  let ?c16 = "cfg_model_example MODE_MODEL_ZERO"
  let ?cS = "cfg_model_example MODE_MODEL_ZERO_S_FX"
  let ?h = "heap_model_example"
  note cfg = cfg_model_example_simps
  note hp = heap_model_example_simps
  note t32 = pre_process_model_32_in_place [of ?c32 env_example 9 ?h 4 "list_buf [1, 2] 0" 0]
  note t16 = pre_process_model_32_in_place [of ?c16 env_example 9 ?h 4 "list_buf [1, 2] 0" 0]
  note tS = pre_process_model_32_in_place [of ?cS env_example 9 ?h 4 "list_buf [1, 2] 0" 0]
  have a: "pre_process env_example (?c32\<lparr>icu_new_model_buf := 9\<rparr>) ?h =
           pre_process env_example ?c32 ?h"
    using t32 by (simp add: cfg)
  have b: "pre_process env_example ?c32
             (?h\<lparr>mem32 := (mem32 ?h)(4 := list_buf [1, 2] 0)\<rparr>) =
           (fst (pre_process env_example ?c32 ?h),
            (snd (pre_process env_example ?c32 ?h))
              \<lparr>mem32 := (mem32 (snd (pre_process env_example ?c32 ?h)))
                           (4 := list_buf [1, 2] 0)\<rparr>)"
    using t32 by (simp add: cfg)
  have c: "mem32 (snd (pre_process env_example ?c32 ?h)) 2 0 = 98"
    using t32 by (simp add: cfg NULL_def MAX_MODEL_VALUE_def hp cal_up_model_example_32)
  have d: "mem16 (snd (pre_process env_example ?c16 ?h)) 2 = list_buf [96, 60] 0 \<and>
           mem16 (snd (pre_process env_example ?c16 ?h)) 4 0 = 98"
    using t16
    by (simp add: cfg NULL_def MAX_MODEL_VALUE_def hp cal_up_model_example_16 list_buf_def)
  have e: "memS_FX (snd (pre_process env_example ?cS ?h)) 4 0 = \<lparr>EXPOSURE_FLAGS = 2, FX = 98\<rparr>"
    using tS
    by (simp add: cfg NULL_def pre_process_example_S_FX_ok hp cal_up_model_example_S_FX)
  show ?thesis using a b c d e by blast
qed

section \<open>A configuration without samples\<close>

lemma b2i_nonneg: "0 \<le> b2i b"
  by (simp add: b2i_def)

lemma b2i_simps: "b2i True = 1" "b2i False = 0"
  by (simp_all add: b2i_def)

lemma fst_icu_cmp_cfg_valid_info:
  "fst (icu_cmp_cfg_valid env cfg info) = fst (icu_cmp_cfg_valid env cfg None)"
  by (simp add: icu_cmp_cfg_valid_def Let_def)

lemma snd_icu_cmp_cfg_valid_shape:
  "map_option (\<lambda>_. c) (snd (icu_cmp_cfg_valid env cfg info)) = map_option (\<lambda>_. c) info"
  by (cases info) (simp_all add: icu_cmp_cfg_valid_def Let_def set_err_def)

lemma icu_cmp_cfg_valid_unsupported:
  "fst (icu_cmp_cfg_valid env cfg info) = 0 \<Longrightarrow> cmp_mode cfg \<noteq> MODE_UNSUPPORTED n"
proof
  assume v: "fst (icu_cmp_cfg_valid env cfg info) = 0" and m: "cmp_mode cfg = MODE_UNSUPPORTED n"
  have "fst (icu_cmp_cfg_valid env cfg info) \<le> - 1"
    using m
    by (simp add: icu_cmp_cfg_valid_def Let_def raw_mode_is_used_def model_mode_is_used_def
          diff_mode_is_used_def b2i_def)
  with v show False by simp
qed

lemma icu_cmp_cfg_valid_samples_0:
  "fst (icu_cmp_cfg_valid env cfg info) \<le> fst (icu_cmp_cfg_valid env (cfg\<lparr>samples := 0\<rparr>) info)"
  using b2i_nonneg [of "buffer_length cfg = 0 \<and> samples cfg \<noteq> 0"]
        b2i_nonneg [of "buffer_length cfg < samples cfg"]
  by (simp add: icu_cmp_cfg_valid_def Let_def b2i_simps)


lemma b2i_eq_0: "(b2i b = 0) = (\<not> b)"
  by (simp add: b2i_def)

lemma icu_cmp_cfg_valid_buffers:
  assumes "fst (icu_cmp_cfg_valid env cfg info) = 0"
  shows "input_buf cfg \<noteq> NULL \<and> icu_output_buf cfg \<noteq> NULL"
proof -
  have "b2i (input_buf cfg = NULL) = 0 \<and> b2i (icu_output_buf cfg = NULL) = 0"
  proof (cases "raw_mode_is_used (cmp_mode cfg)")
    case r: True
    show ?thesis
    proof (cases "model_mode_is_used (cmp_mode cfg)")
      case True
      from assms show ?thesis
        by (simp only: icu_cmp_cfg_valid_def Let_def r True if_True if_False fst_conv
              neg_equal_0_iff_equal add_nonneg_eq_0_iff add_nonneg_nonneg b2i_nonneg simp_thms)
    next
      case False
      from assms show ?thesis
        by (simp only: icu_cmp_cfg_valid_def Let_def r False if_True if_False fst_conv
              neg_equal_0_iff_equal add_nonneg_eq_0_iff add_nonneg_nonneg b2i_nonneg simp_thms)
    qed
  next
    case r: False
    show ?thesis
    proof (cases "model_mode_is_used (cmp_mode cfg)")
      case True
      from assms show ?thesis
        by (simp only: icu_cmp_cfg_valid_def Let_def r True if_True if_False fst_conv
              neg_equal_0_iff_equal add_nonneg_eq_0_iff add_nonneg_nonneg b2i_nonneg simp_thms)
    next
      case False
      from assms show ?thesis
        by (simp only: icu_cmp_cfg_valid_def Let_def r False if_True if_False fst_conv
              neg_equal_0_iff_equal add_nonneg_eq_0_iff add_nonneg_nonneg b2i_nonneg simp_thms)
    qed
  qed
  then show ?thesis by (simp add: b2i_eq_0)
qed

lemma encode_data_no_samples:
  assumes s: "samples cfg = 0"
    and m: "\<And>n. cmp_mode cfg \<noteq> MODE_UNSUPPORTED n"
    and b: "input_buf cfg \<noteq> NULL" "icu_output_buf cfg \<noteq> NULL"
  shows "fst (encode_data env cfg info h) = 0 \<and>
         fst (snd (encode_data env cfg info h)) = map_option (\<lambda>i. i\<lparr>cmp_size := 0\<rparr>) info"
  using m
  by (cases "cmp_mode cfg")
     (auto simp: encode_data_def Let_def s b encode_16_def encode_32_def encode_S_FX_def
        encode_S_FX_EFX_def encode_S_FX_NCOB_def encode_S_FX_EFX_NCOB_ECOB_def encode_raw_def
        raw_mode_is_used_def)


lemma ilog_2_example_4: "ilog_2_example 4 = 2"
  by code_simp

lemma get_max_spill_example_4: "get_max_spill_example 4 m = 104"
  by (simp add: get_max_spill_example_def ilog_2_example_4)


text \<open>
  Claim C8, amended. Setting \<open>samples\<close> to 0 never adds a problem to the validator's
  count. For a configuration that the validator accepts, that has no samples and whose
  mode, round parameter and model value each fit 8 bits, \<open>icu_compress_data\<close> returns 0
  and sets \<open>info.cmp_size\<close> to 0; when one of the three does not fit 8 bits,
  \<open>set_info\<close> ends the call with -1 before the validator runs.
\<close>

theorem icu_compress_data_no_samples:
  "fst (icu_cmp_cfg_valid env cfg info) \<le> fst (icu_cmp_cfg_valid env (cfg\<lparr>samples := 0\<rparr>) info) \<and>
   (fst (icu_cmp_cfg_valid env cfg info) = 0 \<and> samples cfg = 0 \<and>
    mode_code env (cmp_mode cfg) \<le> UINT8_MAX \<and> unat (round_par cfg) \<le> UINT8_MAX \<and>
    unat (model_value cfg) \<le> UINT8_MAX \<longrightarrow>
      fst (icu_compress_data env cfg info h) = 0 \<and>
      map_option cmp_size (fst (snd (icu_compress_data env cfg info h))) =
        map_option (\<lambda>_. 0) info) \<and>
   (UINT8_MAX < mode_code env (cmp_mode cfg) \<or> UINT8_MAX < unat (round_par cfg) \<or>
    UINT8_MAX < unat (model_value cfg) \<longrightarrow>
      fst (icu_compress_data env cfg info h) = - 1)"
proof -
  have neg: "UINT8_MAX < mode_code env (cmp_mode cfg) \<or> UINT8_MAX < unat (round_par cfg) \<or>
    UINT8_MAX < unat (model_value cfg) \<Longrightarrow> fst (icu_compress_data env cfg info h) = - 1"
    by (auto simp: icu_compress_data_def set_info_def)
  have pos: "fst (icu_compress_data env cfg info h) = 0 \<and>
      map_option cmp_size (fst (snd (icu_compress_data env cfg info h))) =
        map_option (\<lambda>_. 0) info"
    if v: "fst (icu_cmp_cfg_valid env cfg info) = 0" and s: "samples cfg = 0"
      and g: "mode_code env (cmp_mode cfg) \<le> UINT8_MAX" "unat (round_par cfg) \<le> UINT8_MAX"
        "unat (model_value cfg) \<le> UINT8_MAX"
  proof -
    obtain i1 where si: "set_info env cfg info = (0, i1)"
      and i1: "map_option (\<lambda>_. 0 :: u32) i1 = map_option (\<lambda>_. 0) info"
      using g by (cases info) (simp_all add: set_info_def not_less [symmetric])
    obtain i2 where vi: "icu_cmp_cfg_valid env cfg i1 = (0, i2)"
      and i2: "map_option (\<lambda>_. 0 :: u32) i2 = map_option (\<lambda>_. 0) i1"
    proof -
      have "fst (icu_cmp_cfg_valid env cfg i1) = 0"
        using v fst_icu_cmp_cfg_valid_info [of env cfg info]
          fst_icu_cmp_cfg_valid_info [of env cfg i1] by simp
      moreover have "map_option (\<lambda>_. 0 :: u32) (snd (icu_cmp_cfg_valid env cfg i1)) =
          map_option (\<lambda>_. 0) i1"
        by (rule snd_icu_cmp_cfg_valid_shape)
      ultimately show ?thesis
        using that [of "snd (icu_cmp_cfg_valid env cfg i1)"] by (metis prod.collapse)
    qed
    have pp: "pre_process env cfg h = (0, h)" using s by (simp add: pre_process_def)
    have mp: "map_to_pos cfg h = (0, h)" using s by (simp add: map_to_pos_def)
    note b = icu_cmp_cfg_valid_buffers [OF v]
    note m = icu_cmp_cfg_valid_unsupported [OF v]
    note ed = encode_data_no_samples [OF s m b [THEN conjunct1] b [THEN conjunct2], of env i2 h]
    have e: "icu_compress_data env cfg info h = encode_data env cfg i2 h"
      by (simp add: icu_compress_data_def si vi pp mp)
    show ?thesis
      unfolding e using ed i1 i2
      by (simp add: option.map_comp comp_def)
  qed
  show ?thesis
    using neg pos icu_cmp_cfg_valid_samples_0 [of env cfg info] by blast
qed



lemma icu_cmp_cfg_valid_example:
  "fst (icu_cmp_cfg_valid env_example (cfg_example\<lparr>samples := 0\<rparr>) (Some info_example)) = 0"
  by (simp add: icu_cmp_cfg_valid_def Let_def cfg_example_def env_example_def NULL_def
        b2i_def model_mode_is_used_def raw_mode_is_used_def diff_mode_is_used_def
        MIN_ICU_GOLOMB_PAR_def MAX_ICU_ROUND_def get_max_spill_example_4)


lemma cfg_example_fits:
  "mode_code env_example (cmp_mode cfg_example) \<le> UINT8_MAX"
  "unat (round_par cfg_example) \<le> UINT8_MAX"
  "unat (model_value cfg_example) \<le> UINT8_MAX"
  by (simp_all add: cfg_example_def env_example_def UINT8_MAX_def)

lemma cfg_raw_example_round: "UINT8_MAX < unat (round_par cfg_raw_example)"
  by (simp add: cfg_raw_example_def UINT8_MAX_def)

theorem icu_compress_data_no_samples_witness:
  "fst (icu_compress_data env_example (cfg_example\<lparr>samples := 0\<rparr>) (Some info_example)
          zero_heap) = 0 \<and>
   map_option cmp_size
     (fst (snd (icu_compress_data env_example (cfg_example\<lparr>samples := 0\<rparr>)
                  (Some info_example) zero_heap))) = Some 0 \<and>
   fst (icu_compress_data env_example cfg_raw_example (Some info_example) zero_heap) = - 1"
proof -
  note t = icu_compress_data_no_samples
             [of env_example "cfg_example\<lparr>samples := 0\<rparr>" "Some info_example" zero_heap]
  note u = icu_compress_data_no_samples
             [of env_example cfg_raw_example "Some info_example" zero_heap]
  have a: "fst (icu_compress_data env_example (cfg_example\<lparr>samples := 0\<rparr>)
                  (Some info_example) zero_heap) = 0 \<and>
           map_option cmp_size
             (fst (snd (icu_compress_data env_example (cfg_example\<lparr>samples := 0\<rparr>)
                  (Some info_example) zero_heap))) = map_option (\<lambda>_. 0) (Some info_example)"
    using t icu_cmp_cfg_valid_example cfg_example_fits by simp
  have b: "fst (icu_compress_data env_example cfg_raw_example (Some info_example) zero_heap)
             = - 1"
    using u cfg_raw_example_round by blast
  show ?thesis using a b by simp
qed


text \<open>
  The claim as stated fails: the validator accepts a raw mode configuration with a
  round parameter of 256 and a differencing configuration with a model value of 256,
  both without samples, and \<open>icu_compress_data\<close> returns -1 for them.
\<close>

lemma icu_cmp_cfg_valid_raw_example:
  "fst (icu_cmp_cfg_valid env_example cfg_raw_example (Some info_example)) = 0"
  by (simp add: icu_cmp_cfg_valid_def Let_def cfg_example_def cfg_raw_example_def
        env_example_def NULL_def b2i_def model_mode_is_used_def raw_mode_is_used_def
        diff_mode_is_used_def)

lemma icu_cmp_cfg_valid_diff_zero_example:
  "fst (icu_cmp_cfg_valid env_example cfg_diff_zero_example (Some info_example)) = 0"
  by (simp add: icu_cmp_cfg_valid_def Let_def cfg_example_def cfg_diff_zero_example_def
        env_example_def NULL_def b2i_def model_mode_is_used_def raw_mode_is_used_def
        diff_mode_is_used_def MIN_ICU_GOLOMB_PAR_def MAX_ICU_ROUND_def
        get_max_spill_example_4)

theorem icu_compress_data_no_samples_counterexample:
  "samples cfg_raw_example = 0 \<and>
   fst (icu_cmp_cfg_valid env_example cfg_raw_example (Some info_example)) = 0 \<and>
   fst (icu_compress_data env_example cfg_raw_example (Some info_example) zero_heap) = - 1 \<and>
   samples cfg_diff_zero_example = 0 \<and>
   fst (icu_cmp_cfg_valid env_example cfg_diff_zero_example (Some info_example)) = 0 \<and>
   fst (icu_compress_data env_example cfg_diff_zero_example (Some info_example) zero_heap) = - 1"
proof -
  have "fst (icu_compress_data env_example cfg_raw_example (Some info_example) zero_heap) = - 1"
    by (simp add: icu_compress_data_def set_info_def cfg_raw_example_def cfg_example_def
          env_example_def UINT8_MAX_def)
  moreover have
    "fst (icu_compress_data env_example cfg_diff_zero_example (Some info_example) zero_heap)
       = - 1"
    by (simp add: icu_compress_data_def set_info_def cfg_diff_zero_example_def cfg_example_def
          env_example_def UINT8_MAX_def)
  moreover have "samples cfg_raw_example = 0" "samples cfg_diff_zero_example = 0"
    by (simp_all add: cfg_raw_example_def cfg_diff_zero_example_def)
  ultimately show ?thesis
    using icu_cmp_cfg_valid_raw_example icu_cmp_cfg_valid_diff_zero_example by simp
qed


section \<open>An output buffer that is too small\<close>

lemma for_each_nth:
  "for_each f n k d i = (if k \<le> i \<and> i < k + n then f (d i) else d i)"
proof (induction n arbitrary: k d)
  case 0
  then show ?case by auto
next
  case (Suc n)
  show ?case by (simp add: Suc.IH)
qed

lemma icu_compress_data_stages:
  assumes "fst (set_info env cfg info) = 0"
    and "fst (icu_cmp_cfg_valid env cfg (snd (set_info env cfg info))) = 0"
    and "fst (pre_process env cfg h) = 0"
    and "map_to_pos cfg (snd (pre_process env cfg h)) = (0, h2)"
  shows "icu_compress_data env cfg info h =
           encode_data env cfg
             (snd (icu_cmp_cfg_valid env cfg (snd (set_info env cfg info)))) h2"
  using assms by (simp add: icu_compress_data_def split_beta)

lemma diff_multi_16_stages:
  assumes "cmp_mode cfg = MODE_DIFF_MULTI" and "samples cfg \<noteq> 0" and "input_buf cfg \<noteq> NULL"
  shows "fst (pre_process env cfg h) = 0"
    and "map_to_pos cfg (snd (pre_process env cfg h)) =
           (0, h\<lparr>mem16 := (mem16 h)(input_buf cfg :=
                 for_each (\<lambda>v. bias False (map_to_pos_alg_16 v)) (unat (samples cfg)) 0
                   (diff_loop (\<lambda>a b. a - b) (unat (samples cfg) - 1)
                      (lossy_rounding_16 (mem16 h (input_buf cfg)) (samples cfg)
                         (round_par cfg))))\<rparr>)"
  using assms
  by (simp_all add: pre_process_def map_to_pos_def diff_16_def map_to_pos_16_def Let_def
        zero_escape_mech_is_used_def)

lemma mapped_example:
  "for_each (\<lambda>v. bias False (map_to_pos_alg_16 v)) 8 0
     (diff_loop (\<lambda>a b. a - b) 7
        (lossy_rounding_16 (list_buf [2, 4, 6, 8, 10, 12, 14, 18] 0) 8 0)) =
   list_buf [4, 4, 4, 4, 4, 4, 4, 8] 0"
proof (rule ext)
  fix i :: nat
  let ?l = "for_each (\<lambda>v. bias False (map_to_pos_alg_16 v)) 8 0
     (diff_loop (\<lambda>a b. a - b) 7
        (lossy_rounding_16 (list_buf [2, 4, 6, 8, 10, 12, 14, 18] 0) 8 0))"
  let ?r = "list_buf [4, 4, 4, 4, 4, 4, 4, 8] (0 :: u16)"
  have "list_all (\<lambda>j. ?l j = ?r j) [0..<8]"
    by code_simp
  then have c: "i < 8 \<Longrightarrow> ?l i = ?r i"
    by (simp add: list_all_iff)
  have o: "8 \<le> i \<Longrightarrow> ?l i = ?r i"
    by (simp add: for_each_nth diff_loop_nth lossy_rounding_16_def list_buf_def)
  show "?l i = ?r i"
    using c o by (cases "i < 8") simp_all
qed

lemma mapped_nine_example:
  "for_each (\<lambda>v. bias False (map_to_pos_alg_16 v)) 9 0
     (diff_loop (\<lambda>a b. a - b) 8
        (lossy_rounding_16 (list_buf [2, 4, 6, 8, 10, 12, 14, 16, 18] 0) 9 0)) =
   list_buf [4, 4, 4, 4, 4, 4, 4, 4, 4] 0"
proof (rule ext)
  fix i :: nat
  let ?l = "for_each (\<lambda>v. bias False (map_to_pos_alg_16 v)) 9 0
     (diff_loop (\<lambda>a b. a - b) 8
        (lossy_rounding_16 (list_buf [2, 4, 6, 8, 10, 12, 14, 16, 18] 0) 9 0))"
  let ?r = "list_buf [4, 4, 4, 4, 4, 4, 4, 4, 4] (0 :: u16)"
  have "list_all (\<lambda>j. ?l j = ?r j) [0..<9]"
    by code_simp
  then have c: "i < 9 \<Longrightarrow> ?l i = ?r i"
    by (simp add: list_all_iff)
  have o: "9 \<le> i \<Longrightarrow> ?l i = ?r i"
    by (simp add: for_each_nth diff_loop_nth lossy_rounding_16_def list_buf_def)
  show "?l i = ?r i"
    using c o by (cases "i < 9") simp_all
qed

lemma cfg_example_stages:
  assumes "cfg = cfg_example\<lparr>samples := n, buffer_length := b\<rparr>" and "n \<noteq> 0" and "b \<noteq> 0"
  shows "fst (set_info env_example cfg (Some info_example)) = 0"
    and "fst (icu_cmp_cfg_valid env_example cfg
                (snd (set_info env_example cfg (Some info_example)))) = 0"
    and "cmp_mode cfg = MODE_DIFF_MULTI" and "samples cfg = n" and "input_buf cfg = 1"
    and "round_par cfg = 0"
proof -
  show "fst (set_info env_example cfg (Some info_example)) = 0"
    unfolding assms(1)
    by (simp add: set_info_def cfg_example_def env_example_def UINT8_MAX_def)
  show "fst (icu_cmp_cfg_valid env_example cfg
                (snd (set_info env_example cfg (Some info_example)))) = 0"
    unfolding assms(1) fst_icu_cmp_cfg_valid_info [of _ _ "snd _"]
    using assms(2,3)
    by (simp add: icu_cmp_cfg_valid_def Let_def cfg_example_def env_example_def NULL_def
        b2i_def model_mode_is_used_def raw_mode_is_used_def diff_mode_is_used_def
        MIN_ICU_GOLOMB_PAR_def MAX_ICU_ROUND_def get_max_spill_example_4)
  show "cmp_mode cfg = MODE_DIFF_MULTI" "samples cfg = n" "input_buf cfg = 1"
    "round_par cfg = 0"
    unfolding assms(1) by (simp_all add: cfg_example_def)
qed

lemma icu_compress_data_example_run:
  assumes "cfg = cfg_example\<lparr>samples := n, buffer_length := b\<rparr>" and "n \<noteq> 0" and "b \<noteq> 0"
    and "for_each (\<lambda>v. bias False (map_to_pos_alg_16 v)) (unat n) 0
           (diff_loop (\<lambda>a b. a - b) (unat n - 1) (lossy_rounding_16 (mem16 h 1) n 0)) = ys"
  shows "icu_compress_data env_example cfg (Some info_example) h =
           encode_data env_example cfg
             (snd (icu_cmp_cfg_valid env_example cfg
                     (snd (set_info env_example cfg (Some info_example)))))
             (h\<lparr>mem16 := (mem16 h)(1 := ys)\<rparr>)"
proof -
  note s = cfg_example_stages [OF assms(1,2,3)]
  have i: "input_buf cfg \<noteq> NULL" and n: "samples cfg \<noteq> 0"
    using assms(2) by (simp_all add: s NULL_def)
  have m: "map_to_pos cfg (snd (pre_process env_example cfg h)) =
             (0, h\<lparr>mem16 := (mem16 h)(1 := ys)\<rparr>)"
    unfolding diff_multi_16_stages(2) [OF s(3) n i] by (simp only: s assms(4))
  show ?thesis
    by (rule icu_compress_data_stages [OF s(1) s(2) diff_multi_16_stages(1) [OF s(3) n i] m])
qed

text \<open>
  Claim C2. In the run of \<open>icu_compress_data\<close> on the accepted configuration
  \<open>cfg_example\<close> (capacity 32 bits) the encoded stream has 35 bits, as the run with a
  larger buffer shows, and yet the call returns 0 with a size of 30 bits and no error bit:
  the escape symbol of the last sample is refused by the bit packer, the refusal is
  dropped by \<open>encode_outlier_multi\<close>, and the two unencoded bits that follow still fit.
  When a normal code word does not fit (nine samples), the call returns -2 with the
  small-buffer bit and a size of 0.
\<close>

theorem icu_compress_data_small_buffer_missed:
  "fst (icu_cmp_cfg_valid env_example cfg_example (Some info_example)) = 0 \<and>
   capacity_bits (buffer_length cfg_example) = 32 \<and>
   icu_compress_data_example (cfg_example\<lparr>buffer_length := 4\<rparr>) heap_example =
     (0, Some 35, Some {}, 0x8888888C, 0) \<and>
   icu_compress_data_example cfg_example heap_example =
     (0, Some 30, Some {}, 0x88888880, 0) \<and>
   icu_compress_data_example (cfg_example\<lparr>samples := 9\<rparr>) heap_nine_example =
     (- 2, Some 0, Some {SMALL_BUFFER_ERR_BIT}, 0x88888888, 0)"
proof -
  have v: "fst (icu_cmp_cfg_valid env_example cfg_example (Some info_example)) = 0"
    by code_simp
  have c: "capacity_bits (buffer_length cfg_example) = 32"
    by (simp add: capacity_bits_def cfg_example_def)
  have e: "cfg_example\<lparr>buffer_length := 4\<rparr> = cfg_example\<lparr>samples := 8, buffer_length := 4\<rparr>"
    "cfg_example = cfg_example\<lparr>samples := 8, buffer_length := 2\<rparr>"
    "cfg_example\<lparr>samples := 9\<rparr> = cfg_example\<lparr>samples := 9, buffer_length := 2\<rparr>"
    by (simp_all add: cfg_example_def)
  have h: "heap_example\<lparr>mem16 := (mem16 heap_example)(1 := list_buf [4, 4, 4, 4, 4, 4, 4, 8] 0)\<rparr>
             = heap_mapped_example"
    "heap_nine_example\<lparr>mem16 := (mem16 heap_nine_example)
                                   (1 := list_buf [4, 4, 4, 4, 4, 4, 4, 4, 4] 0)\<rparr>
             = heap_mapped_nine_example"
    by (simp_all add: heap_example_def heap_nine_example_def heap_mapped_example_def
          heap_mapped_nine_example_def)
  have a8: "for_each (\<lambda>v. bias False (map_to_pos_alg_16 v)) (unat (8 :: u32)) 0
              (diff_loop (\<lambda>a b. a - b) (unat (8 :: u32) - 1)
                 (lossy_rounding_16 (mem16 heap_example 1) 8 0)) =
            list_buf [4, 4, 4, 4, 4, 4, 4, 8] 0"
    using mapped_example by (simp add: heap_example_def)
  have a9: "for_each (\<lambda>v. bias False (map_to_pos_alg_16 v)) (unat (9 :: u32)) 0
              (diff_loop (\<lambda>a b. a - b) (unat (9 :: u32) - 1)
                 (lossy_rounding_16 (mem16 heap_nine_example 1) 9 0)) =
            list_buf [4, 4, 4, 4, 4, 4, 4, 4, 4] 0"
    using mapped_nine_example by (simp add: heap_nine_example_def)
  have r1: "icu_compress_data_example (cfg_example\<lparr>buffer_length := 4\<rparr>) heap_example =
              (0, Some 35, Some {}, 0x8888888C, 0)"
    unfolding icu_compress_data_example_def
      icu_compress_data_example_run [OF e(1) _ _ a8, simplified] h
    by code_simp
  have r2: "icu_compress_data_example cfg_example heap_example =
              (0, Some 30, Some {}, 0x88888880, 0)"
    unfolding icu_compress_data_example_def
      icu_compress_data_example_run [OF e(2) _ _ a8, simplified] h
    by code_simp
  have r3: "icu_compress_data_example (cfg_example\<lparr>samples := 9\<rparr>) heap_nine_example =
              (- 2, Some 0, Some {SMALL_BUFFER_ERR_BIT}, 0x88888888, 0)"
    unfolding icu_compress_data_example_def
      icu_compress_data_example_run [OF e(3) _ _ a9, simplified] h
    by code_simp
  show ?thesis
    using v c r1 r2 r3 by (intro conjI)
qed

section \<open>The Golomb parameter of the exposure flags\<close>

text \<open>
  Claim C1. The encoding stage on one mapped sample with exposure flags 5 and all
  other fields 0, Rice code words. In the shape \<open>S_FX\<close> the flags are coded with the
  fixed parameter: with \<open>GOLOMB_PAR_EXPOSURE_FLAGS = 1\<close> the stream starts with
  \<open>111110\<close> whether the configured parameter is 4 or 2, and with the fixed parameter 2
  it starts with \<open>1101\<close>. In the shapes \<open>S_FX_EFX\<close>, \<open>S_FX_NCOB\<close> and
  \<open>S_FX_EFX_NCOB_ECOB\<close> the flags are coded by \<open>encode_value\<close> with the configured
  parameter: the stream starts with \<open>1001\<close> for the configured parameter 4 and with
  \<open>1101\<close> for 2, whatever the fixed parameter is.
\<close>

theorem encode_data_exposure_flags_parameter:
  "encode_data_S_example 1 4 MODE_DIFF_MULTI_S_FX = (0, Some 9, 0xF8000000) \<and>
   encode_data_S_example 1 2 MODE_DIFF_MULTI_S_FX = (0, Some 8, 0xF8000000) \<and>
   encode_data_S_example 2 4 MODE_DIFF_MULTI_S_FX = (0, Some 7, 0xD0000000) \<and>
   encode_data_S_example 1 4 MODE_DIFF_MULTI_S_FX_EFX = (0, Some 10, 0x90000000) \<and>
   encode_data_S_example 1 2 MODE_DIFF_MULTI_S_FX_EFX = (0, Some 8, 0xD0000000) \<and>
   encode_data_S_example 2 4 MODE_DIFF_MULTI_S_FX_EFX = (0, Some 10, 0x90000000) \<and>
   encode_data_S_example 1 4 MODE_DIFF_MULTI_S_FX_NCOB = (0, Some 13, 0x90000000) \<and>
   encode_data_S_example 1 2 MODE_DIFF_MULTI_S_FX_NCOB = (0, Some 10, 0xD0000000) \<and>
   encode_data_S_example 2 4 MODE_DIFF_MULTI_S_FX_NCOB = (0, Some 13, 0x90000000) \<and>
   encode_data_S_example 1 4 MODE_DIFF_MULTI_S_FX_EFX_NCOB_ECOB = (0, Some 22, 0x90000000) \<and>
   encode_data_S_example 1 2 MODE_DIFF_MULTI_S_FX_EFX_NCOB_ECOB = (0, Some 16, 0xD0000000) \<and>
   encode_data_S_example 2 4 MODE_DIFF_MULTI_S_FX_EFX_NCOB_ECOB = (0, Some 22, 0x90000000)"
  by code_simp


end
